theory Spec2Isabelle
  imports Main
begin

section \<open>Values of the JavaScript runtime\<close>

text \<open>
  A string is the list of the UTF-8 bytes of the source's text, so the Ukrainian
  vocabulary of the source appears as byte lists. \<open>str_includes\<close> is
  \<^verbatim>\<open>String.prototype.includes\<close>; on well-formed UTF-8 a byte-wise
  substring test agrees with the test on the text.
\<close>

fun startsWith :: "string \<Rightarrow> string \<Rightarrow> bool" where
  "startsWith s [] = True"
| "startsWith [] (k # ks) = False"
| "startsWith (c # cs) (k # ks) = (c = k \<and> startsWith cs ks)"

fun str_includes :: "string \<Rightarrow> string \<Rightarrow> bool" where
  "str_includes [] k = (k = [])"
| "str_includes (c # cs) k = (startsWith (c # cs) k \<or> str_includes cs k)"

text \<open>\<^verbatim>\<open>Array.prototype.some\<close> over a vocabulary of substrings.\<close>

definition someIncluded :: "string list \<Rightarrow> string \<Rightarrow> bool" where
  "someIncluded kws s = list_ex (\<lambda>kw. str_includes s kw) kws"

definition lowerAscii :: "char \<Rightarrow> char" where
  "lowerAscii c =
     (let n = (of_char c :: nat) in if 65 \<le> n \<and> n \<le> 90 then char_of (n + 32) else c)"

text \<open>
  \<^verbatim>\<open>toLowerCase\<close> on the UTF-8 bytes: the Latin capitals, and the
  Cyrillic capitals U+0400 to U+042F and U+0490 (two bytes each), which are the
  alphabets the vocabularies of the source are written in. Capitals of other
  scripts stay as they are.
\<close>

fun toLowerCase :: "string \<Rightarrow> string" where
  "toLowerCase [] = []"
| "toLowerCase [c] = [lowerAscii c]"
| "toLowerCase (c # d # cs) =
     (let n = (of_char d :: nat) in
      if c = CHR 0xD0 \<and> 0x90 \<le> n \<and> n \<le> 0x9F
        then CHR 0xD0 # char_of (n + 0x20) # toLowerCase cs
      else if c = CHR 0xD0 \<and> 0xA0 \<le> n \<and> n \<le> 0xAF
        then CHR 0xD1 # char_of (n - 0x20) # toLowerCase cs
      else if c = CHR 0xD0 \<and> 0x80 \<le> n \<and> n \<le> 0x8F
        then CHR 0xD1 # char_of (n + 0x10) # toLowerCase cs
      else if c = CHR 0xD2 \<and> n = 0x90
        then CHR 0xD2 # CHR 0x91 # toLowerCase cs
      else lowerAscii c # toLowerCase (d # cs))"

text \<open>Decimal text of a number, as template interpolation and \<^verbatim>\<open>String(n)\<close> give it.\<close>

fun showNat :: "nat \<Rightarrow> string" where
  "showNat n =
     (if n < 10 then [char_of (48 + n)] else showNat (n div 10) @ [char_of (48 + n mod 10)])"

declare showNat.simps [simp del]

text \<open>
  \<^verbatim>\<open>Number(s)\<close> on a string, after the StringToNumber grammar of the language:
  blanks and line ends around the numeral are dropped; the empty text reads as 0; a
  numeral is binary, octal or hexadecimal with its \<open>0b\<close>, \<open>0o\<close> or \<open>0x\<close> prefix, or
  decimal with an optional sign, an optional fraction and an optional exponent, or a
  signed \<open>Infinity\<close>; anything else is NaN. A finite value is kept exactly, as a
  mantissa and a power of ten; the rounding to a double is not modelled.
\<close>

datatype jsnum = NaN | Infinite | Num int int

definition radixDigit :: "nat \<Rightarrow> char \<Rightarrow> nat option" where
  "radixDigit base c =
     (let n = (of_char c :: nat);
          v = (if 48 \<le> n \<and> n \<le> 57 then Some (n - 48)
               else if 97 \<le> n \<and> n \<le> 102 then Some (n - 87)
               else if 65 \<le> n \<and> n \<le> 70 then Some (n - 55)
               else None)
      in case v of None \<Rightarrow> None | Some d \<Rightarrow> if d < base then Some d else None)"

fun digitsVal :: "nat \<Rightarrow> nat \<Rightarrow> string \<Rightarrow> nat option" where
  "digitsVal base acc [] = Some acc"
| "digitsVal base acc (c # cs) =
     (case radixDigit base c of
        None \<Rightarrow> None
      | Some d \<Rightarrow> digitsVal base (base * acc + d) cs)"

definition isDigit :: "char \<Rightarrow> bool" where
  "isDigit c = (radixDigit 10 c \<noteq> None)"

text \<open>
  The blanks and line ends of the language, in UTF-8: tab, line feed, vertical tab, form
  feed, carriage return, space, U+00A0, U+1680, U+2000 to U+200A, U+2028, U+2029,
  U+202F, U+205F, U+3000 and U+FEFF.
\<close>

definition blanks :: "string list" where
  "blanks =
     [[CHR 0x09], [CHR 0x0A], [CHR 0x0B], [CHR 0x0C], [CHR 0x0D], [CHR 0x20],
      [CHR 0xC2, CHR 0xA0], [CHR 0xE1, CHR 0x9A, CHR 0x80],
      [CHR 0xE2, CHR 0x80, CHR 0x80], [CHR 0xE2, CHR 0x80, CHR 0x81],
      [CHR 0xE2, CHR 0x80, CHR 0x82], [CHR 0xE2, CHR 0x80, CHR 0x83],
      [CHR 0xE2, CHR 0x80, CHR 0x84], [CHR 0xE2, CHR 0x80, CHR 0x85],
      [CHR 0xE2, CHR 0x80, CHR 0x86], [CHR 0xE2, CHR 0x80, CHR 0x87],
      [CHR 0xE2, CHR 0x80, CHR 0x88], [CHR 0xE2, CHR 0x80, CHR 0x89],
      [CHR 0xE2, CHR 0x80, CHR 0x8A], [CHR 0xE2, CHR 0x80, CHR 0xA8],
      [CHR 0xE2, CHR 0x80, CHR 0xA9], [CHR 0xE2, CHR 0x80, CHR 0xAF],
      [CHR 0xE2, CHR 0x81, CHR 0x9F], [CHR 0xE3, CHR 0x80, CHR 0x80],
      [CHR 0xEF, CHR 0xBB, CHR 0xBF]]"

text \<open>
  Dropping the blanks a text starts with; the first argument bounds the number of
  blanks dropped and is given as the length of the text.
\<close>

fun dropBlanks :: "nat \<Rightarrow> string list \<Rightarrow> string \<Rightarrow> string" where
  "dropBlanks 0 bs s = s"
| "dropBlanks (Suc n) bs s =
     (case find (\<lambda>b. startsWith s b) bs of
        None \<Rightarrow> s
      | Some b \<Rightarrow> dropBlanks n bs (drop (length b) s))"

definition trimBlanks :: "string \<Rightarrow> string" where
  "trimBlanks s =
     (let l = dropBlanks (length s) blanks s
      in rev (dropBlanks (length l) (map rev blanks) (rev l)))"

definition exponentPart :: "string \<Rightarrow> int option" where
  "exponentPart r =
     (case r of
        [] \<Rightarrow> Some 0
      | c # cs \<Rightarrow>
          if c = CHR ''e'' \<or> c = CHR ''E'' then
            (case cs of
               [] \<Rightarrow> None
             | d # ds \<Rightarrow>
                 if d = CHR ''-''
                   then (if ds = [] then None
                         else map_option (\<lambda>n. - int n) (digitsVal 10 0 ds))
                 else if d = CHR ''+''
                   then (if ds = [] then None else map_option int (digitsVal 10 0 ds))
                 else map_option int (digitsVal 10 0 cs))
          else None)"

definition unsignedDecimal :: "string \<Rightarrow> jsnum" where
  "unsignedDecimal r =
     (if r = ''Infinity'' then Infinite
      else
        (let ip = takeWhile isDigit r;
             r1 = dropWhile isDigit r;
             fp = (case r1 of [] \<Rightarrow> [] | c # cs \<Rightarrow> if c = CHR ''.'' then takeWhile isDigit cs else []);
             r2 = (case r1 of [] \<Rightarrow> [] | c # cs \<Rightarrow> if c = CHR ''.'' then dropWhile isDigit cs else r1)
         in if ip = [] \<and> fp = [] then NaN
            else
              (case digitsVal 10 0 (ip @ fp) of
                 None \<Rightarrow> NaN
               | Some m \<Rightarrow>
                   (case exponentPart r2 of
                      None \<Rightarrow> NaN
                    | Some e \<Rightarrow> Num (int m) (e - int (length fp))))))"

definition radixLiteral :: "string \<Rightarrow> nat option" where
  "radixLiteral t =
     (case t of
        [] \<Rightarrow> None
      | c # r \<Rightarrow>
          (case r of
             [] \<Rightarrow> None
           | x # ds \<Rightarrow>
               if c = CHR ''0'' \<and> ds \<noteq> [] then
                 (if x = CHR ''x'' \<or> x = CHR ''X'' then digitsVal 16 0 ds
                  else if x = CHR ''o'' \<or> x = CHR ''O'' then digitsVal 8 0 ds
                  else if x = CHR ''b'' \<or> x = CHR ''B'' then digitsVal 2 0 ds
                  else None)
               else None))"

definition negated :: "jsnum \<Rightarrow> jsnum" where
  "negated v = (case v of NaN \<Rightarrow> NaN | Infinite \<Rightarrow> Infinite | Num m e \<Rightarrow> Num (- m) e)"

definition jsNumber :: "string \<Rightarrow> jsnum" where
  "jsNumber s =
     (let t = trimBlanks s in
      case t of
        [] \<Rightarrow> Num 0 0
      | c # cs \<Rightarrow>
          (case radixLiteral t of
             Some n \<Rightarrow> Num (int n) 0
           | None \<Rightarrow>
               if c = CHR ''-'' then negated (unsignedDecimal cs)
               else if c = CHR ''+'' then unsignedDecimal cs
               else unsignedDecimal t))"

text \<open>Truthiness of a value of type \<^verbatim>\<open>string | null\<close>: null and the empty string are falsy.\<close>

definition truthy :: "string option \<Rightarrow> bool" where
  "truthy v = (case v of None \<Rightarrow> False | Some s \<Rightarrow> s \<noteq> [])"

text \<open>\<^verbatim>\<open>a || b\<close> on optional strings, and the string of an optional template argument.\<close>

definition orElse :: "string option \<Rightarrow> string option \<Rightarrow> string option" where
  "orElse a b = (if truthy a then a else b)"

definition orDefault :: "string option \<Rightarrow> string \<Rightarrow> string" where
  "orDefault a d = (case a of None \<Rightarrow> d | Some s \<Rightarrow> if s = [] then d else s)"

definition interpolate :: "string option \<Rightarrow> string" where
  "interpolate a = (case a of None \<Rightarrow> ''undefined'' | Some s \<Rightarrow> s)"

section \<open>Dates (luxon) in the configured zone\<close>

text \<open>
  An instant is its epoch milliseconds. The configured zone, an IANA name in the source,
  is given by what luxon asks of it: its offset from UTC in force at each instant, here
  in milliseconds (\<^verbatim>\<open>zone.offset(ts)\<close> times 60000). A zone with daylight saving
  is a function that changes value at its clock changes. A zone name luxon does not
  know is not modelled.

  A luxon \<^verbatim>\<open>DateTime\<close> is \<open>Some\<close> instant, or \<open>None\<close> when it is invalid
  (built from NaN or from a timestamp out of range). A fraction of a millisecond is
  dropped when a number is taken as a timestamp.
\<close>

type_synonym zone = "int \<Rightarrow> int"

record config =
  timezone :: zone
  teamId :: string

type_synonym DateTime = "int option"

definition MAX_DATE :: int where
  "MAX_DATE = 8640000000000000"

definition fromMillis :: "jsnum \<Rightarrow> DateTime" where
  "fromMillis n =
     (case n of
        NaN \<Rightarrow> None
      | Infinite \<Rightarrow> None
      | Num m e \<Rightarrow>
          if 0 \<le> e then
            (let v = m * 10 ^ nat e
             in if v < - MAX_DATE \<or> MAX_DATE < v then None else Some v)
          else
            (let p = 10 ^ nat (- e)
             in if m < - MAX_DATE * p \<or> MAX_DATE * p < m then None
                else Some (if 0 \<le> m then m div p else - ((- m) div p))))"

text \<open>
  The local calendar day of an instant, day 0 being 1970-01-01: the day of the local
  time, which is the instant moved by the offset in force at it.
\<close>

definition calendarDay :: "config \<Rightarrow> int \<Rightarrow> int" where
  "calendarDay cfg ms = (ms + timezone cfg ms) div 86400000"

text \<open>
  luxon's \<open>fixOffset\<close>: the instant whose local time is \<open>localTS\<close>, searched from
  the offset \<open>o1\<close> of the DateTime the search starts from. When the first guess is at
  a different offset, the guess is moved by the difference; when that lands at yet
  another offset the local time does not exist, and the smaller of the two offsets is
  used. Where a local time exists twice, the result depends on \<open>o1\<close>.
\<close>

definition fixOffset :: "zone \<Rightarrow> int \<Rightarrow> int \<Rightarrow> int" where
  "fixOffset z localTS o1 =
     (let utcGuess = localTS - o1;
          o2 = z utcGuess
      in if o1 = o2 then utcGuess
         else
           (let utcGuess' = utcGuess - (o2 - o1);
                o3 = z utcGuess'
            in if o2 = o3 then utcGuess' else localTS - min o2 o3))"

text \<open>
  \<^verbatim>\<open>startOf('day')\<close>: the fields below the day are set to zero and the local time
  so obtained is resolved by \<open>fixOffset\<close> from the DateTime's own offset.
\<close>

definition startOfDay :: "config \<Rightarrow> DateTime \<Rightarrow> DateTime" where
  "startOfDay cfg d =
     (case d of
        None \<Rightarrow> None
      | Some ms \<Rightarrow>
          Some (fixOffset (timezone cfg) (calendarDay cfg ms * 86400000) (timezone cfg ms)))"

text \<open>\<^verbatim>\<open>a < b\<close> on two DateTimes compares their timestamps; with NaN on a side it is false.\<close>

definition dateLess :: "DateTime \<Rightarrow> DateTime \<Rightarrow> bool" where
  "dateLess a b =
     (case a of None \<Rightarrow> False | Some x \<Rightarrow> (case b of None \<Rightarrow> False | Some y \<Rightarrow> x < y))"

text \<open>
  The text \<^verbatim>\<open>toFormat("yyyy-MM-dd")\<close> of a valid instant names its local calendar
  day and nothing more, so it is kept as that day; an invalid one renders as the fixed
  text "Invalid DateTime".
\<close>

datatype dateText = InvalidDateTime | YMD int

definition toFormat :: "config \<Rightarrow> DateTime \<Rightarrow> dateText" where
  "toFormat cfg d = (case d of None \<Rightarrow> InvalidDateTime | Some ms \<Rightarrow> YMD (calendarDay cfg ms))"

text \<open>
  \<^verbatim>\<open>dt.plus({ days: k })\<close>: the same local time \<open>k\<close> calendar days on, resolved by
  \<open>fixOffset\<close> from the offset of \<open>dt\<close>.
\<close>

definition plusDays :: "config \<Rightarrow> int \<Rightarrow> int \<Rightarrow> int" where
  "plusDays cfg ms k =
     fixOffset (timezone cfg) (ms + timezone cfg ms + k * 86400000) (timezone cfg ms)"

text \<open>
  luxon's difference in days of two instants, \<open>earlier\<close> not after \<open>later\<close>: the
  difference of the calendar days, taken back by one (and once more) while adding it to
  \<open>earlier\<close> passes \<open>later\<close>. The result is the instant reached, the count of days,
  and the instant one more day would reach.
\<close>

definition highOrderDiffs :: "config \<Rightarrow> int \<Rightarrow> int \<Rightarrow> int \<times> int \<times> int" where
  "highOrderDiffs cfg earlier later =
     (let days = calendarDay cfg later - calendarDay cfg earlier;
          highWater = plusDays cfg earlier days
      in if later < highWater then
           (let cursor = plusDays cfg earlier (days - 1)
            in if later < cursor then (plusDays cfg earlier (days - 2), days - 2, cursor)
               else (cursor, days - 1, highWater))
         else (highWater, days, highWater))"

text \<open>
  \<^verbatim>\<open>Math.floor(now.diff(created, 'days').days)\<close>: the count of calendar days plus
  the rest as a fraction of the day it falls in, negated when \<open>created\<close> is after
  \<open>now\<close>, rounded down; \<open>None\<close> (NaN) when a side is invalid.
\<close>

definition diffDays :: "config \<Rightarrow> DateTime \<Rightarrow> DateTime \<Rightarrow> int option" where
  "diffDays cfg now created =
     (case now of
        None \<Rightarrow> None
      | Some n \<Rightarrow>
          (case created of
             None \<Rightarrow> None
           | Some c \<Rightarrow>
               (let otherIsLater = (n < c);
                    earlier = (if otherIsLater then n else c);
                    later = (if otherIsLater then c else n);
                    found = highOrderDiffs cfg earlier later;
                    cursor = fst found;
                    days = fst (snd found);
                    highWater =
                      (if snd (snd found) < later then plusDays cfg cursor 1
                       else snd (snd found));
                    remainingMillis = later - cursor
                in Some
                     (if highWater = cursor then (if otherIsLater then - days else days)
                      else if otherIsLater
                        then - days + (- remainingMillis) div (highWater - cursor)
                      else days + remainingMillis div (highWater - cursor)))))"

text \<open>
  The local day \<open>d\<close> has a settled midnight at the offset \<open>mu\<close> when the zone is at
  \<open>mu\<close> at the instant \<open>d * 86400000 - mu\<close>, and also at the instant that the
  offset of any instant of the day gives as a first guess for the day's local
  midnight. Then no clock change makes that midnight ambiguous, and it is the same
  whichever instant of the day it is computed from.
\<close>

definition settledMidnight :: "config \<Rightarrow> int \<Rightarrow> int \<Rightarrow> bool" where
  "settledMidnight cfg d mu =
     (timezone cfg (d * 86400000 - mu) = mu
      \<and> (\<forall>t. calendarDay cfg t = d \<longrightarrow> timezone cfg (d * 86400000 - timezone cfg t) = mu))"

section \<open>Task records\<close>

text \<open>
  The status of a task is a plain string or an object with a \<open>status\<close> field, or is
  missing. An assignee is a string or an object with optional \<open>username\<close>,
  \<open>email\<close> and numeric \<open>id\<close>. The \<open>list\<close>, \<open>folder\<close> and
  \<open>space\<close> of a task are read only for their names.
\<close>

datatype status_field = Plain string | Structured string | NoStatus

datatype assignee =
  AssigneeName string
| AssigneeObj (username: "string option") (email: "string option") (assignee_id: "nat option")

record task =
  task_id :: "string option"
  task_name :: string
  task_status :: status_field
  due_date :: "string option"
  date_created :: "string option"
  assignees :: "assignee list"
  list_name :: "string option"
  folder_name :: "string option"
  space_name :: "string option"
  task_url :: "string option"
  task_short_url :: "string option"

section \<open>Task retrieval pipeline (QueryProcessor)\<close>

record QueryClassification =
  entityType :: "string option"
  entityId :: "string option"
  entityName :: "string option"
  filterType :: "string option"

datatype error =
  UnknownEntityType "string option"
| JsonSyntaxError
| CompletionError "nat option" "string option" "string option"

text \<open>
  The tracker's REST surface: the answer to a GET of an endpoint. \<open>Fails\<close> is a
  rejected fetch or a non-2xx answer, for which \<open>fetchClickUpAPI\<close> throws;
  \<open>Body r\<close> is the parsed JSON, \<open>r\<close> its \<open>tasks\<close> field if it has one.
\<close>

datatype api_response = Fails | Body "task list option"

type_synonym clickup = "string \<Rightarrow> api_response"

definition getStatusString :: "status_field \<Rightarrow> string" where
  "getStatusString st = (case st of Plain s \<Rightarrow> s | Structured s \<Rightarrow> s | NoStatus \<Rightarrow> [])"

definition personEndpoint :: "config \<Rightarrow> string \<Rightarrow> nat \<Rightarrow> string" where
  "personEndpoint cfg personId page =
     ''/team/'' @ teamId cfg @ ''/task?assignees[]='' @ personId
       @ ''&subtasks=true&archived=false&page='' @ showNat page"

text \<open>
  The pagination loop of \<open>loadPersonTasks\<close>, from page \<open>page\<close> with the tasks
  gathered so far. The last argument counts the fetches issued; the source keeps no
  such counter, it is carried to state the bound on them.
\<close>

function pagesFrom ::
  "clickup \<Rightarrow> config \<Rightarrow> string \<Rightarrow> nat \<Rightarrow> task list \<Rightarrow> nat \<Rightarrow> task list \<times> nat" where
  "pagesFrom api cfg personId page allTasks fetched =
     (if page < 10 then
        (case api (personEndpoint cfg personId page) of
           Fails \<Rightarrow> (allTasks, Suc fetched)
         | Body r \<Rightarrow>
             (let tasks = (case r of None \<Rightarrow> [] | Some ts \<Rightarrow> ts) in
              if tasks = [] then (allTasks @ tasks, Suc fetched)
              else pagesFrom api cfg personId (Suc page) (allTasks @ tasks) (Suc fetched)))
      else (allTasks, fetched))"
  by pat_completeness auto
termination
  by (relation "measure (\<lambda>(api, cfg, personId, page, allTasks, fetched). 10 - page)") auto

declare pagesFrom.simps [simp del]

definition loadPersonTasks :: "clickup \<Rightarrow> config \<Rightarrow> string \<Rightarrow> task list" where
  "loadPersonTasks api cfg personId = fst (pagesFrom api cfg personId 0 [] 0)"

definition personFetches :: "clickup \<Rightarrow> config \<Rightarrow> string \<Rightarrow> nat" where
  "personFetches api cfg personId = snd (pagesFrom api cfg personId 0 [] 0)"

record department =
  list_ids :: "string list option"
  space_ids :: "string list option"
  aliases :: "string list option"

type_synonym Departments = "string \<Rightarrow> department option"

definition listEndpoint :: "string \<Rightarrow> string" where
  "listEndpoint listId = ''/list/'' @ listId @ ''/task?archived=false&subtasks=true''"

fun loadLists :: "clickup \<Rightarrow> string list \<Rightarrow> task list \<Rightarrow> task list" where
  "loadLists api [] allTasks = allTasks"
| "loadLists api (listId # rest) allTasks =
     (case api (listEndpoint listId) of
        Fails \<Rightarrow> loadLists api rest allTasks
      | Body r \<Rightarrow> loadLists api rest (allTasks @ (case r of None \<Rightarrow> [] | Some ts \<Rightarrow> ts)))"

definition loadDepartmentTasks :: "clickup \<Rightarrow> Departments \<Rightarrow> string \<Rightarrow> task list" where
  "loadDepartmentTasks api depts departmentKey =
     (case depts departmentKey of
        None \<Rightarrow> []
      | Some dept \<Rightarrow>
          (case list_ids dept of None \<Rightarrow> [] | Some ids \<Rightarrow> loadLists api ids []))"

record MemberConfig =
  member_id :: nat
  member_name :: string
  member_username :: "string option"
  member_email :: "string option"
  member_aliases :: "string list"
  member_role :: "string option"
  exclude_from_counts :: bool

fun loadMembers :: "clickup \<Rightarrow> config \<Rightarrow> MemberConfig list \<Rightarrow> task list \<Rightarrow> task list" where
  "loadMembers api cfg [] allTasks = allTasks"
| "loadMembers api cfg (m # rest) allTasks =
     loadMembers api cfg rest (allTasks @ loadPersonTasks api cfg (showNat (member_id m)))"

definition loadAllTasks :: "clickup \<Rightarrow> config \<Rightarrow> MemberConfig list \<Rightarrow> task list" where
  "loadAllTasks api cfg members = loadMembers api cfg members []"

text \<open>
  The static configuration the pipeline reads: the zone and team, the department table
  and the member roster.
\<close>

record settings =
  env_config :: config
  env_departments :: Departments
  env_members :: "MemberConfig list"

definition loadTasks :: "clickup \<Rightarrow> settings \<Rightarrow> QueryClassification \<Rightarrow> error + task list" where
  "loadTasks api env c =
     (if entityType c = Some ''person''
        then Inr (loadPersonTasks api (env_config env) (interpolate (entityId c)))
      else if entityType c = Some ''department''
        then Inr (loadDepartmentTasks api (env_departments env) (interpolate (entityId c)))
      else if entityType c = Some ''all''
        then Inr (loadAllTasks api (env_config env) (env_members env))
      else Inl (UnknownEntityType (entityType c)))"

definition progressKeywords :: "string list" where
  "progressKeywords =
     [''in progress'',
      ''progress'',
      [CHR 0xD1, CHR 0x80, CHR 0xD0, CHR 0xBE, CHR 0xD0, CHR 0xB1, CHR 0xD0, CHR 0xBE, CHR 0xD1, CHR 0x82],
      [CHR 0xD0, CHR 0xB2] @ '' '' @ [CHR 0xD1, CHR 0x80, CHR 0xD0, CHR 0xBE, CHR 0xD0, CHR 0xB1, CHR 0xD0, CHR 0xBE, CHR 0xD1, CHR 0x82, CHR 0xD1, CHR 0x96],
      [CHR 0xD0, CHR 0xB2] @ '' '' @ [CHR 0xD0, CHR 0xBF, CHR 0xD1, CHR 0x80, CHR 0xD0, CHR 0xBE, CHR 0xD1, CHR 0x86, CHR 0xD0, CHR 0xB5, CHR 0xD1, CHR 0x81, CHR 0xD1, CHR 0x96],
      ''in work'',
      ''working'']"

definition activeStatuses :: "string list" where
  "activeStatuses =
     [[CHR 0xD1, CHR 0x81, CHR 0xD1, CHR 0x8C, CHR 0xD0, CHR 0xBE, CHR 0xD0, CHR 0xB3, CHR 0xD0, CHR 0xBE, CHR 0xD0, CHR 0xB4, CHR 0xD0, CHR 0xBD, CHR 0xD1, CHR 0x96],
      ''today'',
      ''urgent'',
      [CHR 0xD0, CHR 0xB2] @ '' '' @ [CHR 0xD1, CHR 0x80, CHR 0xD0, CHR 0xBE, CHR 0xD0, CHR 0xB1, CHR 0xD0, CHR 0xBE, CHR 0xD1, CHR 0x82, CHR 0xD1, CHR 0x96],
      ''in progress'',
      [CHR 0xD0, CHR 0xB7, CHR 0xD0, CHR 0xB0, CHR 0xD0, CHR 0xB4, CHR 0xD0, CHR 0xB0, CHR 0xD1, CHR 0x87, CHR 0xD1, CHR 0x96] @ '' '' @ [CHR 0xD0, CHR 0xBD, CHR 0xD0, CHR 0xB0] @ '' '' @ [CHR 0xD1, CHR 0x81, CHR 0xD1, CHR 0x8C, CHR 0xD0, CHR 0xBE, CHR 0xD0, CHR 0xB3, CHR 0xD0, CHR 0xBE, CHR 0xD0, CHR 0xB4, CHR 0xD0, CHR 0xBD, CHR 0xD1, CHR 0x96],
      [CHR 0xD0, CHR 0xBD, CHR 0xD0, CHR 0xB0] @ '' '' @ [CHR 0xD0, CHR 0xB7, CHR 0xD0, CHR 0xB0, CHR 0xD1, CHR 0x82, CHR 0xD0, CHR 0xB2, CHR 0xD0, CHR 0xB5, CHR 0xD1, CHR 0x80, CHR 0xD0, CHR 0xB4, CHR 0xD0, CHR 0xB6, CHR 0xD0, CHR 0xB5, CHR 0xD0, CHR 0xBD, CHR 0xD0, CHR 0xBD, CHR 0xD1, CHR 0x8F],
      [CHR 0xD0, CHR 0xB4, CHR 0xD0, CHR 0xBE, CHR 0xD0, CHR 0xBF, CHR 0xD1, CHR 0x80, CHR 0xD0, CHR 0xB0, CHR 0xD1, CHR 0x86, CHR 0xD1, CHR 0x8E, CHR 0xD0, CHR 0xB2, CHR 0xD0, CHR 0xB0, CHR 0xD1, CHR 0x82, CHR 0xD0, CHR 0xB8],
      [CHR 0xD1, CHR 0x83, CHR 0xD1, CHR 0x81, CHR 0xD1, CHR 0x96] @ '' '' @ [CHR 0xD0, CHR 0xB7, CHR 0xD0, CHR 0xB0, CHR 0xD0, CHR 0xB4, CHR 0xD0, CHR 0xB0, CHR 0xD1, CHR 0x87, CHR 0xD1, CHR 0x96],
      ''all tasks'',
      ''to do'',
      ''open'',
      ''backlog'']"

definition inProgressTask :: "task \<Rightarrow> bool" where
  "inProgressTask t =
     someIncluded progressKeywords (toLowerCase (getStatusString (task_status t)))"

definition filterInProgress :: "task list \<Rightarrow> task list" where
  "filterInProgress tasks = filter inProgressTask tasks"

text \<open>The predicate \<open>filterOverdue\<close> filters by; \<open>now\<close> is the instant of \<^verbatim>\<open>DateTime.now()\<close>.\<close>

definition overdueTask :: "config \<Rightarrow> int \<Rightarrow> task \<Rightarrow> bool" where
  "overdueTask cfg now t =
     (let todayStart = startOfDay cfg (Some now) in
      if \<not> truthy (due_date t) then False
      else
        (let due = fromMillis (jsNumber (orDefault (due_date t) [])) in
         dateLess (startOfDay cfg due) todayStart))"

definition filterOverdue :: "config \<Rightarrow> int \<Rightarrow> task list \<Rightarrow> task list" where
  "filterOverdue cfg now tasks = filter (overdueTask cfg now) tasks"

text \<open>
  The predicate \<open>filterStuck\<close> filters by, its four checks in the source's order.
  Nothing in the body throws on a task record, so the \<^verbatim>\<open>catch\<close> branch is not
  reached.
\<close>

definition stuckTask :: "config \<Rightarrow> int \<Rightarrow> task \<Rightarrow> bool" where
  "stuckTask cfg now t =
     (if truthy (due_date t) then False
      else
        (let statusName = toLowerCase (getStatusString (task_status t)) in
         if \<not> someIncluded activeStatuses statusName then False
         else
           (let created =
                  (if truthy (date_created t)
                   then Some (fromMillis (jsNumber (orDefault (date_created t) [])))
                   else None)
            in case created of
                 None \<Rightarrow> False
               | Some None \<Rightarrow> False
               | Some (Some c) \<Rightarrow>
                   (case diffDays cfg (Some now) (Some c) of
                      None \<Rightarrow> False
                    | Some daysOld \<Rightarrow> if daysOld < 1 then False else True))))"

definition filterStuck :: "config \<Rightarrow> int \<Rightarrow> task list \<Rightarrow> task list" where
  "filterStuck cfg now tasks = filter (stuckTask cfg now) tasks"

definition dueTodayTask :: "config \<Rightarrow> int \<Rightarrow> task \<Rightarrow> bool" where
  "dueTodayTask cfg now t =
     (let todayStr = toFormat cfg (Some now) in
      if \<not> truthy (due_date t) then False
      else
        (let due = fromMillis (jsNumber (orDefault (due_date t) [])) in
         toFormat cfg due = todayStr))"

definition filterDueToday :: "config \<Rightarrow> int \<Rightarrow> task list \<Rightarrow> task list" where
  "filterDueToday cfg now tasks = filter (dueTodayTask cfg now) tasks"

definition applyFilters :: "config \<Rightarrow> int \<Rightarrow> task list \<Rightarrow> string option \<Rightarrow> task list" where
  "applyFilters cfg now tasks ft =
     (if ft = Some ''in_progress'' then filterInProgress tasks
      else if ft = Some ''overdue'' then filterOverdue cfg now tasks
      else if ft = Some ''stuck'' then filterStuck cfg now tasks
      else if ft = Some ''due_today'' then filterDueToday cfg now tasks
      else if ft = Some ''none'' then tasks
      else tasks)"

definition processQuery ::
  "clickup \<Rightarrow> settings \<Rightarrow> int \<Rightarrow> QueryClassification \<Rightarrow> error + task list" where
  "processQuery api env now c =
     (case loadTasks api env c of
        Inl e \<Rightarrow> Inl e
      | Inr tasks \<Rightarrow> Inr (applyFilters (env_config env) now tasks (filterType c)))"

section \<open>Statistics engine (generateOverdueStats)\<close>

text \<open>
  The classification the statistics loop computes for one task. It reads the status as
  \<^verbatim>\<open>task.status?.status || ''\<close>: a status that is a plain string has no
  \<open>status\<close> property, so it reads as the empty string.
\<close>

definition statsStatusName :: "task \<Rightarrow> string" where
  "statsStatusName t =
     toLowerCase (case task_status t of Structured s \<Rightarrow> s | Plain s \<Rightarrow> [] | NoStatus \<Rightarrow> [])"

text \<open>The variables \<open>due\<close> and \<open>created\<close> of the loop: \<open>None\<close> is JavaScript's null.\<close>

definition statsDue :: "task \<Rightarrow> DateTime option" where
  "statsDue t =
     (if truthy (due_date t) then Some (fromMillis (jsNumber (orDefault (due_date t) [])))
      else None)"

definition statsCreated :: "task \<Rightarrow> DateTime option" where
  "statsCreated t =
     (if truthy (date_created t) then Some (fromMillis (jsNumber (orDefault (date_created t) [])))
      else None)"

definition statsDaysOld :: "config \<Rightarrow> int \<Rightarrow> task \<Rightarrow> int option" where
  "statsDaysOld cfg now t =
     (case statsCreated t of
        None \<Rightarrow> Some 0
      | Some created \<Rightarrow> diffDays cfg (Some now) created)"

definition statsIsDueToday :: "config \<Rightarrow> int \<Rightarrow> task \<Rightarrow> bool" where
  "statsIsDueToday cfg now t =
     (case statsDue t of
        None \<Rightarrow> False
      | Some due \<Rightarrow> toFormat cfg due = toFormat cfg (Some now))"

definition statsIsHardOverdue :: "config \<Rightarrow> int \<Rightarrow> task \<Rightarrow> bool" where
  "statsIsHardOverdue cfg now t =
     (case statsDue t of
        None \<Rightarrow> False
      | Some due \<Rightarrow> dateLess (startOfDay cfg due) (startOfDay cfg (Some now)))"

definition statsIsStuck :: "config \<Rightarrow> int \<Rightarrow> task \<Rightarrow> bool" where
  "statsIsStuck cfg now t =
     (statsDue t = None
      \<and> someIncluded activeStatuses (statsStatusName t)
      \<and> (case statsDaysOld cfg now t of None \<Rightarrow> False | Some daysOld \<Rightarrow> 1 \<le> daysOld))"

definition statsDepartment :: "task \<Rightarrow> string" where
  "statsDepartment t =
     orDefault (list_name t)
       (orDefault (folder_name t) (orDefault (space_name t) ([CHR 0xD0, CHR 0x91, CHR 0xD0, CHR 0xB5, CHR 0xD0, CHR 0xB7] @ '' '' @ [CHR 0xD0, CHR 0xB2, CHR 0xD1, CHR 0x96, CHR 0xD0, CHR 0xB4, CHR 0xD0, CHR 0xB4, CHR 0xD1, CHR 0x96, CHR 0xD0, CHR 0xBB, CHR 0xD1, CHR 0x83])))"

text \<open>
  The name under which an assignee is counted: the assignee itself when it is a string,
  else username, else email, else the text of a non-zero id, else \<open>Unknown\<close>.
\<close>

definition assigneeName :: "assignee \<Rightarrow> string" where
  "assigneeName a =
     (case a of
        AssigneeName s \<Rightarrow> s
      | AssigneeObj u e i \<Rightarrow>
          orDefault u
            (orDefault e
               (case i of
                  None \<Rightarrow> ''Unknown''
                | Some n \<Rightarrow> if n = 0 then ''Unknown'' else showNat n)))"

text \<open>
  The map \<open>statsByAssignee\<close> is kept as the list of its entries in insertion order,
  which is the order \<^verbatim>\<open>Map.prototype.entries\<close> walks them in.
\<close>

record AssigneeCounts =
  hardOverdue :: nat
  stuck :: nat
  dueToday :: nat
  departments :: "string list"

type_synonym statsMap = "(string \<times> AssigneeCounts) list"

definition emptyCounts :: AssigneeCounts where
  "emptyCounts = \<lparr>hardOverdue = 0, stuck = 0, dueToday = 0, departments = []\<rparr>"

definition hasKey :: "statsMap \<Rightarrow> string \<Rightarrow> bool" where
  "hasKey m k = list_ex (\<lambda>e. fst e = k) m"

fun updateEntry ::
  "string \<Rightarrow> (AssigneeCounts \<Rightarrow> AssigneeCounts) \<Rightarrow> statsMap \<Rightarrow> statsMap" where
  "updateEntry k f [] = []"
| "updateEntry k f (e # m) =
     (if fst e = k then (fst e, f (snd e)) # m else e # updateEntry k f m)"

definition setAdd :: "string \<Rightarrow> string list \<Rightarrow> string list" where
  "setAdd x xs = (if list_ex (\<lambda>y. y = x) xs then xs else xs @ [x])"

text \<open>The body of the loop over the assignees of a task, for one counted name.\<close>

definition tally ::
  "string \<Rightarrow> bool \<Rightarrow> bool \<Rightarrow> bool \<Rightarrow> string \<Rightarrow> statsMap \<Rightarrow> statsMap" where
  "tally department isHardOverdue isStuck isDueToday name m =
     updateEntry name
       (\<lambda>stats. stats
          \<lparr>departments := setAdd department (departments stats),
           hardOverdue := (if isHardOverdue then Suc (hardOverdue stats) else hardOverdue stats),
           stuck := (if isStuck then Suc (stuck stats) else stuck stats),
           dueToday := (if isDueToday then Suc (dueToday stats) else dueToday stats)\<rparr>)
       (if hasKey m name then m else m @ [(name, emptyCounts)])"

fun tallyAssignees ::
  "string \<Rightarrow> bool \<Rightarrow> bool \<Rightarrow> bool \<Rightarrow> assignee list \<Rightarrow> statsMap \<Rightarrow> statsMap" where
  "tallyAssignees department isHardOverdue isStuck isDueToday [] m = m"
| "tallyAssignees department isHardOverdue isStuck isDueToday (a # rest) m =
     (let name = assigneeName a in
      if name = [] \<or> name = ''Unknown''
      then tallyAssignees department isHardOverdue isStuck isDueToday rest m
      else tallyAssignees department isHardOverdue isStuck isDueToday rest
             (tally department isHardOverdue isStuck isDueToday name m))"

fun tallyTasks :: "config \<Rightarrow> int \<Rightarrow> task list \<Rightarrow> statsMap \<Rightarrow> statsMap" where
  "tallyTasks cfg now [] m = m"
| "tallyTasks cfg now (t # rest) m =
     (if assignees t = [] then tallyTasks cfg now rest m
      else tallyTasks cfg now rest
             (tallyAssignees (statsDepartment t) (statsIsHardOverdue cfg now t)
                (statsIsStuck cfg now t) (statsIsDueToday cfg now t) (assignees t) m))"

definition statsByAssignee :: "config \<Rightarrow> int \<Rightarrow> task list \<Rightarrow> statsMap" where
  "statsByAssignee cfg now allTasks = tallyTasks cfg now allTasks []"

record StatsRow =
  row_name :: string
  total :: nat
  row_hardOverdue :: nat
  row_stuck :: nat
  row_dueToday :: nat
  row_departments :: "string list"

definition toRow :: "string \<times> AssigneeCounts \<Rightarrow> StatsRow" where
  "toRow e =
     \<lparr>row_name = fst e,
      total = hardOverdue (snd e) + stuck (snd e) + dueToday (snd e),
      row_hardOverdue = hardOverdue (snd e),
      row_stuck = stuck (snd e),
      row_dueToday = dueToday (snd e),
      row_departments = departments (snd e)\<rparr>"

text \<open>
  The array \<open>sorted\<close>. \<^verbatim>\<open>Array.prototype.sort\<close> is stable, and the comparator
  \<^verbatim>\<open>(a, b) => b.total - a.total\<close> orders by descending \<open>total\<close>; the stable sort
  by the key \<open>- total\<close> is that order.
\<close>

definition sortedStats :: "config \<Rightarrow> int \<Rightarrow> task list \<Rightarrow> StatsRow list" where
  "sortedStats cfg now allTasks =
     sort_key (\<lambda>s. - int (total s))
       (filter (\<lambda>s. 0 < total s) (map toRow (statsByAssignee cfg now allTasks)))"

fun joinWith :: "string \<Rightarrow> string list \<Rightarrow> string" where
  "joinWith sep [] = []"
| "joinWith sep [x] = x"
| "joinWith sep (x # y # rest) = x @ sep @ joinWith sep (y # rest)"

definition noProblemsMsg :: string where
  "noProblemsMsg = [CHR 0xE2, CHR 0x9C, CHR 0x85] @ '' '' @ [CHR 0xD0, CHR 0x9F, CHR 0xD1, CHR 0x80, CHR 0xD0, CHR 0xBE, CHR 0xD0, CHR 0xB1, CHR 0xD0, CHR 0xBB, CHR 0xD0, CHR 0xB5, CHR 0xD0, CHR 0xBC, CHR 0xD0, CHR 0xBD, CHR 0xD0, CHR 0xB8, CHR 0xD1, CHR 0x85] @ '' '' @ [CHR 0xD0, CHR 0xB7, CHR 0xD0, CHR 0xB0, CHR 0xD0, CHR 0xB4, CHR 0xD0, CHR 0xB0, CHR 0xD1, CHR 0x87] @ '' '' @ [CHR 0xD0, CHR 0xBD, CHR 0xD1, CHR 0x96] @ '' '' @ [CHR 0xD1, CHR 0x83] @ '' '' @ [CHR 0xD0, CHR 0xBA, CHR 0xD0, CHR 0xBE, CHR 0xD0, CHR 0xB3, CHR 0xD0, CHR 0xBE] @ '' '' @ [CHR 0xD0, CHR 0xBD, CHR 0xD0, CHR 0xB5, CHR 0xD0, CHR 0xBC, CHR 0xD0, CHR 0xB0, CHR 0xD1, CHR 0x94] @ ''!''"

definition statsHeader :: "nat \<Rightarrow> string" where
  "statsHeader n =
     ([CHR 0xF0, CHR 0x9F, CHR 0x93, CHR 0x8A] @ '' <b>'' @ [CHR 0xD0, CHR 0xA2, CHR 0xD0, CHR 0xBE, CHR 0xD0, CHR 0xBF] @ ''-'') @ showNat n @ ('' '' @ [CHR 0xD0, CHR 0xB7, CHR 0xD0, CHR 0xB0] @ '' '' @ [CHR 0xD0, CHR 0xBF, CHR 0xD1, CHR 0x80, CHR 0xD0, CHR 0xBE, CHR 0xD0, CHR 0xB1, CHR 0xD0, CHR 0xBB, CHR 0xD0, CHR 0xB5, CHR 0xD0, CHR 0xBC, CHR 0xD0, CHR 0xBD, CHR 0xD0, CHR 0xB8, CHR 0xD0, CHR 0xBC, CHR 0xD0, CHR 0xB8] @ '' '' @ [CHR 0xD0, CHR 0xB7, CHR 0xD0, CHR 0xB0, CHR 0xD0, CHR 0xB4, CHR 0xD0, CHR 0xB0, CHR 0xD1, CHR 0x87, CHR 0xD0, CHR 0xB0, CHR 0xD0, CHR 0xBC, CHR 0xD0, CHR 0xB8] @ '':</b>'' @ [CHR 0x0A])"

definition medal :: "nat \<Rightarrow> string" where
  "medal i =
     (if i = 0 then [CHR 0xF0, CHR 0x9F, CHR 0xA5, CHR 0x87]
      else if i = 1 then [CHR 0xF0, CHR 0x9F, CHR 0xA5, CHR 0x88]
      else if i = 2 then [CHR 0xF0, CHR 0x9F, CHR 0xA5, CHR 0x89]
      else showNat (i + 1) @ ''.'')"

definition rowParts :: "StatsRow \<Rightarrow> string list" where
  "rowParts s =
     (if 0 < row_hardOverdue s then [([CHR 0xF0, CHR 0x9F, CHR 0x94, CHR 0xB4]) @ showNat (row_hardOverdue s)] else [])
     @ (if 0 < row_stuck s then [([CHR 0xF0, CHR 0x9F, CHR 0x9F, CHR 0xA0]) @ showNat (row_stuck s)] else [])
     @ (if 0 < row_dueToday s then [([CHR 0xF0, CHR 0x9F, CHR 0x9F, CHR 0xA1]) @ showNat (row_dueToday s)] else [])"

definition renderRow :: "nat \<Rightarrow> StatsRow \<Rightarrow> string" where
  "renderRow i s =
     medal i @ '' <b>'' @ row_name s @ (''</b> '' @ [CHR 0xE2, CHR 0x80, CHR 0x94] @ '' '') @ showNat (total s)
       @ '' ('' @ joinWith '' + '' (rowParts s) @ '')''"

definition moreNote :: "nat \<Rightarrow> string" where
  "moreNote n = ([CHR 0x0A] @ ''<i>...'' @ [CHR 0xD1, CHR 0x82, CHR 0xD0, CHR 0xB0] @ '' '' @ [CHR 0xD1, CHR 0x89, CHR 0xD0, CHR 0xB5] @ '' '') @ showNat n @ ('' '' @ [CHR 0xD1, CHR 0x81, CHR 0xD0, CHR 0xBF, CHR 0xD1, CHR 0x96, CHR 0xD0, CHR 0xB2, CHR 0xD1, CHR 0x80, CHR 0xD0, CHR 0xBE, CHR 0xD0, CHR 0xB1, CHR 0xD1, CHR 0x96, CHR 0xD1, CHR 0x82, CHR 0xD0, CHR 0xBD, CHR 0xD0, CHR 0xB8, CHR 0xD0, CHR 0xBA, CHR 0xD1, CHR 0x96, CHR 0xD0, CHR 0xB2] @ ''</i>'')"

text \<open>The array \<open>lines\<close> built once \<open>sorted\<close> is known to be non-empty.\<close>

definition statsLines :: "StatsRow list \<Rightarrow> string list" where
  "statsLines rows =
     [statsHeader (min (length rows) 5)]
     @ map (\<lambda>i. renderRow i (rows ! i)) [0 ..< min (length rows) 5]
     @ (if 5 < length rows then [moreNote (length rows - 5)] else [])"

definition generateOverdueStats :: "config \<Rightarrow> int \<Rightarrow> task list \<Rightarrow> string" where
  "generateOverdueStats cfg now allTasks =
     (let rows = sortedStats cfg now allTasks in
      if length rows = 0 then noProblemsMsg
      else joinWith [CHR 0x0A] (statsLines rows))"

text \<open>
  The names counted, in the order the two loops meet them, and the order of first
  occurrence in a list.
\<close>

definition countedNames :: "task list \<Rightarrow> string list" where
  "countedNames allTasks =
     concat (map (\<lambda>t. filter (\<lambda>n. n \<noteq> [] \<and> n \<noteq> ''Unknown'') (map assigneeName (assignees t)))
               allTasks)"

fun firstSeen :: "'a list \<Rightarrow> 'a list" where
  "firstSeen [] = []"
| "firstSeen (x # xs) = x # filter (\<lambda>y. y \<noteq> x) (firstSeen xs)"

section \<open>HTML escaping\<close>

text \<open>
  \<^verbatim>\<open>value.replace(/c/g, r)\<close> for a single character \<open>c\<close>, and the two local
  helpers \<open>escapeHtml\<close> and \<open>escapeAttr\<close> of the orchestrator, each a chain of such
  replacements in the source's order.
\<close>

definition replaceAll :: "char \<Rightarrow> string \<Rightarrow> string \<Rightarrow> string" where
  "replaceAll c r s = concat (map (\<lambda>x. if x = c then r else [x]) s)"

definition escapeHtml :: "string \<Rightarrow> string" where
  "escapeHtml v =
     replaceAll (CHR ''>'') ''&gt;'' (replaceAll (CHR ''<'') ''&lt;'' (replaceAll (CHR ''&'') ''&amp;'' v))"

definition escapeAttr :: "string \<Rightarrow> string" where
  "escapeAttr v = replaceAll (CHR 0x22) ''&quot;'' (replaceAll (CHR ''&'') ''&amp;'' v)"

section \<open>Conversation store\<close>

text \<open>
  The store behind the \<open>ConversationStore\<close> interface, as a value: the log of saved
  messages, each with the user it belongs to, and the session state of every user.
  \<open>updateState\<close> writes the given state in place of the old one, as the upsert does.
  The operations are taken to succeed: a store that rejects a call is not modelled, nor
  is the trimming of a user's log to its latest rows that the database-backed store does
  after each save.
\<close>

datatype role = User | Assistant

record SessionState =
  department :: "string option"
  lastReportType :: "string option"
  lastDays :: "nat option"
  lastPersonId :: "string option"
  lastPersonName :: "string option"

record StoredMessage =
  msg_role :: role
  msg_content :: string

record store =
  store_messages :: "(nat \<times> StoredMessage) list"
  store_states :: "nat \<Rightarrow> SessionState"

definition saveMessage :: "store \<Rightarrow> nat \<Rightarrow> role \<Rightarrow> string \<Rightarrow> store" where
  "saveMessage st userId r c =
     st\<lparr>store_messages := store_messages st @ [(userId, \<lparr>msg_role = r, msg_content = c\<rparr>)]\<rparr>"

definition getState :: "store \<Rightarrow> nat \<Rightarrow> SessionState" where
  "getState st userId = store_states st userId"

definition updateState :: "store \<Rightarrow> nat \<Rightarrow> SessionState \<Rightarrow> store" where
  "updateState st userId next = st\<lparr>store_states := (store_states st)(userId := next)\<rparr>"

definition getRecentMessages :: "store \<Rightarrow> nat \<Rightarrow> nat \<Rightarrow> StoredMessage list" where
  "getRecentMessages st userId limit =
     (let own = map snd (filter (\<lambda>m. fst m = userId) (store_messages st))
      in drop (length own - limit) own)"

definition personContext :: "string option \<Rightarrow> string option \<Rightarrow> SessionState" where
  "personContext personId personName =
     \<lparr>department = None, lastReportType = None, lastDays = None,
      lastPersonId = personId, lastPersonName = personName\<rparr>"

section \<open>Conversational orchestrator (Agent)\<close>

text \<open>
  What the completion service sends back. The arguments of a tool call stand for the
  outcome of \<^verbatim>\<open>JSON.parse\<close> on their text: a syntax error, the value null, or an
  object, of which the fields the tools read are kept.
\<close>

record ToolArgs =
  arg_entityType :: "string option"
  arg_entityId :: "string option"
  arg_entityName :: "string option"
  arg_filterType :: "string option"
  arg_personId :: "string option"
  arg_personName :: "string option"
  arg_period :: "string option"

datatype parsed_args = SyntaxErr | JsonNull | JsonObject ToolArgs

record ToolCall =
  call_id :: string
  call_type :: string
  call_name :: string
  call_args :: parsed_args

record AssistantMessage =
  content :: "string option"
  tool_calls :: "ToolCall list"

text \<open>
  The content of a tool message, by the result it serialises: the text of the JSON is
  not modelled.
\<close>

datatype payload =
  ContextUpdated "string option" "string option"
| TimeTracked string
| UnknownTool string
| ToolFailed string

datatype ChatMessage =
  SystemMessage string
| HistoryMessage role string
| UserMessage string
| AssistantTurn AssistantMessage
| ToolMessage string payload

datatype tool_choice = Required | Auto

record ApiError =
  err_status :: "nat option"
  err_code :: "string option"
  err_type :: "string option"

text \<open>
  A completion call throws, or answers with its first choice's message if there is
  one.
\<close>

datatype completion = Throws ApiError | Choice "AssistantMessage option"

text \<open>
  Everything outside the repository that a message handling consults: the completion
  service, the tracker, the clock, the text of a time-tracking result, the runtime's
  \<^verbatim>\<open>toLocaleDateString\<close>, the rendering of the system prompt, and the three
  regular-expression tests of \<open>buildTeamInfoResponse\<close> on the lower-cased text.
\<close>

record world =
  openai :: "ChatMessage list \<Rightarrow> tool_choice \<Rightarrow> completion"
  tracker :: clickup
  clock :: int
  timeTracked :: "ToolArgs \<Rightarrow> string"
  localeDate :: "string \<Rightarrow> string"
  systemPrompt :: "SessionState \<Rightarrow> string"
  roleQuery :: "string \<Rightarrow> bool"
  countQuery :: "string \<Rightarrow> bool"
  listQuery :: "string \<Rightarrow> bool"

definition buildHistoryMessages :: "StoredMessage list \<Rightarrow> ChatMessage list" where
  "buildHistoryMessages history = map (\<lambda>m. HistoryMessage (msg_role m) (msg_content m)) history"

fun firstIncluded :: "string \<Rightarrow> string list \<Rightarrow> bool" where
  "firstIncluded textLower [] = False"
| "firstIncluded textLower (candidate # rest) =
     (let candidateLower = toLowerCase candidate in
      if candidateLower \<noteq> [] \<and> str_includes textLower candidateLower then True
      else firstIncluded textLower rest)"

definition memberCandidates :: "MemberConfig \<Rightarrow> string list" where
  "memberCandidates m =
     filter (\<lambda>c. c \<noteq> [])
       ([member_name m] @ (case member_username m of None \<Rightarrow> [] | Some u \<Rightarrow> [u])
          @ member_aliases m)"

fun findMemberByText :: "string \<Rightarrow> MemberConfig list \<Rightarrow> MemberConfig option" where
  "findMemberByText textLower [] = None"
| "findMemberByText textLower (m # rest) =
     (if firstIncluded textLower (memberCandidates m) then Some m
      else findMemberByText textLower rest)"

definition teamTaskKeywords :: "string list" where
  "teamTaskKeywords = [[CHR 0xD1, CHR 0x82, CHR 0xD0, CHR 0xB0, CHR 0xD1, CHR 0x81, CHR 0xD0, CHR 0xBA], ''task'', [CHR 0xD0, CHR 0xB7, CHR 0xD0, CHR 0xB0, CHR 0xD0, CHR 0xB4, CHR 0xD0, CHR 0xB0, CHR 0xD1, CHR 0x87], [CHR 0xD0, CHR 0xB7, CHR 0xD0, CHR 0xB0, CHR 0xD0, CHR 0xB4, CHR 0xD0, CHR 0xB0, CHR 0xD1, CHR 0x87, CHR 0xD0, CHR 0xB8], [CHR 0xD0, CHR 0xB7, CHR 0xD0, CHR 0xB0, CHR 0xD0, CHR 0xB2, CHR 0xD0, CHR 0xB4, CHR 0xD0, CHR 0xB0, CHR 0xD0, CHR 0xBD]]"

definition roleText :: "MemberConfig \<Rightarrow> string" where
  "roleText m = orDefault (member_role m) ([CHR 0xD1, CHR 0x80, CHR 0xD0, CHR 0xBE, CHR 0xD0, CHR 0xBB, CHR 0xD1, CHR 0x8C] @ '' '' @ [CHR 0xD0, CHR 0xBD, CHR 0xD0, CHR 0xB5] @ '' '' @ [CHR 0xD0, CHR 0xB2, CHR 0xD0, CHR 0xBA, CHR 0xD0, CHR 0xB0, CHR 0xD0, CHR 0xB7, CHR 0xD0, CHR 0xB0, CHR 0xD0, CHR 0xBD, CHR 0xD0, CHR 0xB0])"

definition buildTeamInfoResponse :: "world \<Rightarrow> MemberConfig list \<Rightarrow> string \<Rightarrow> string option" where
  "buildTeamInfoResponse w membersList text =
     (let textLower = toLowerCase text;
          hasTaskKeywords = someIncluded teamTaskKeywords textLower;
          isRoleQuery = roleQuery w textLower;
          isCountQuery = countQuery w textLower;
          isListQuery = listQuery w textLower
      in
      if \<not> isRoleQuery \<and> \<not> isCountQuery \<and> \<not> isListQuery then None
      else if hasTaskKeywords \<and> \<not> isRoleQuery then None
      else
        (let visibleMembers = filter (\<lambda>m. \<not> exclude_from_counts m) membersList;
             matchedMember = findMemberByText textLower membersList
         in
         if isRoleQuery \<and> matchedMember \<noteq> None then
           (case matchedMember of
              None \<Rightarrow> None
            | Some m \<Rightarrow>
                Some (([CHR 0xF0, CHR 0x9F, CHR 0x91, CHR 0xA4] @ '' <b>'') @ escapeHtml (member_name m) @ (''</b>'' @ [CHR 0x0A] @ ''<b>'' @ [CHR 0xD0, CHR 0xA0, CHR 0xD0, CHR 0xBE, CHR 0xD0, CHR 0xBB, CHR 0xD1, CHR 0x8C] @ '':</b> '')
                        @ escapeHtml (roleText m)))
         else if isRoleQuery then
           Some (([CHR 0xF0, CHR 0x9F, CHR 0x91, CHR 0xA5] @ '' <b>'' @ [CHR 0xD0, CHR 0xA0, CHR 0xD0, CHR 0xBE, CHR 0xD0, CHR 0xBB, CHR 0xD1, CHR 0x96] @ '' '' @ [CHR 0xD0, CHR 0xB2] @ '' '' @ [CHR 0xD0, CHR 0xBA, CHR 0xD0, CHR 0xBE, CHR 0xD0, CHR 0xBC, CHR 0xD0, CHR 0xB0, CHR 0xD0, CHR 0xBD, CHR 0xD0, CHR 0xB4, CHR 0xD1, CHR 0x96] @ ''</b>'' @ [CHR 0x0A, CHR 0x0A])
                   @ joinWith [CHR 0x0A]
                       (map (\<lambda>m. ([CHR 0xE2, CHR 0x80, CHR 0xA2] @ '' <b>'') @ escapeHtml (member_name m) @ (''</b> '' @ [CHR 0xE2, CHR 0x80, CHR 0x94] @ '' '')
                                  @ escapeHtml (roleText m))
                          visibleMembers))
         else if isCountQuery \<and> \<not> isListQuery then
           Some (([CHR 0xF0, CHR 0x9F, CHR 0x91, CHR 0xA5] @ '' <b>'' @ [CHR 0xD0, CHR 0xA3] @ '' '' @ [CHR 0xD0, CHR 0xBA, CHR 0xD0, CHR 0xBE, CHR 0xD0, CHR 0xBC, CHR 0xD0, CHR 0xB0, CHR 0xD0, CHR 0xBD, CHR 0xD0, CHR 0xB4, CHR 0xD1, CHR 0x96] @ '': '') @ showNat (length visibleMembers) @ ''</b>'')
         else if isListQuery then
           Some (([CHR 0xF0, CHR 0x9F, CHR 0x91, CHR 0xA5] @ '' <b>'' @ [CHR 0xD0, CHR 0x9A, CHR 0xD0, CHR 0xBE, CHR 0xD0, CHR 0xBC, CHR 0xD0, CHR 0xB0, CHR 0xD0, CHR 0xBD, CHR 0xD0, CHR 0xB4, CHR 0xD0, CHR 0xB0] @ ''</b>'' @ [CHR 0x0A, CHR 0x0A])
                   @ joinWith [CHR 0x0A]
                       (map (\<lambda>m. ([CHR 0xE2, CHR 0x80, CHR 0xA2] @ '' '') @ escapeHtml (member_name m)) visibleMembers)
                   @ ([CHR 0x0A, CHR 0x0A] @ ''<b>'' @ [CHR 0xD0, CHR 0x92, CHR 0xD1, CHR 0x81, CHR 0xD1, CHR 0x8C, CHR 0xD0, CHR 0xBE, CHR 0xD0, CHR 0xB3, CHR 0xD0, CHR 0xBE] @ '':</b> '') @ showNat (length visibleMembers))
         else None))"

text \<open>
  The answer built from the tasks of \<open>load_and_filter_tasks\<close>. The title is looked
  up among the five keys of \<open>filterTitles\<close>; a filter type that names a property
  every object inherits is not modelled.
\<close>

definition filterTitle :: "string option \<Rightarrow> string" where
  "filterTitle ft =
     (if ft = Some ''stuck'' then [CHR 0xE2, CHR 0x8F, CHR 0xB3] @ '' '' @ [CHR 0xD0, CHR 0x97, CHR 0xD0, CHR 0xB0, CHR 0xD0, CHR 0xB2, CHR 0xD0, CHR 0xB8, CHR 0xD1, CHR 0x81, CHR 0xD0, CHR 0xBB, CHR 0xD0, CHR 0xB8] @ '' '' @ [CHR 0xD0, CHR 0xB1, CHR 0xD0, CHR 0xB5, CHR 0xD0, CHR 0xB7] @ '' '' @ [CHR 0xD1, CHR 0x80, CHR 0xD1, CHR 0x83, CHR 0xD1, CHR 0x85, CHR 0xD1, CHR 0x83]
      else if ft = Some ''overdue'' then [CHR 0xF0, CHR 0x9F, CHR 0x94, CHR 0xB4] @ '' '' @ [CHR 0xD0, CHR 0x9F, CHR 0xD1, CHR 0x80, CHR 0xD0, CHR 0xBE, CHR 0xD1, CHR 0x81, CHR 0xD1, CHR 0x82, CHR 0xD1, CHR 0x80, CHR 0xD0, CHR 0xBE, CHR 0xD1, CHR 0x87, CHR 0xD0, CHR 0xB5, CHR 0xD0, CHR 0xBD, CHR 0xD1, CHR 0x96]
      else if ft = Some ''due_today'' then [CHR 0xF0, CHR 0x9F, CHR 0x93, CHR 0x85] @ '' '' @ [CHR 0xD0, CHR 0x9D, CHR 0xD0, CHR 0xB0] @ '' '' @ [CHR 0xD1, CHR 0x81, CHR 0xD1, CHR 0x8C, CHR 0xD0, CHR 0xBE, CHR 0xD0, CHR 0xB3, CHR 0xD0, CHR 0xBE, CHR 0xD0, CHR 0xB4, CHR 0xD0, CHR 0xBD, CHR 0xD1, CHR 0x96]
      else if ft = Some ''in_progress'' then [CHR 0xF0, CHR 0x9F, CHR 0x9F, CHR 0xA2] @ '' '' @ [CHR 0xD0, CHR 0x92] @ '' '' @ [CHR 0xD1, CHR 0x80, CHR 0xD0, CHR 0xBE, CHR 0xD0, CHR 0xB1, CHR 0xD0, CHR 0xBE, CHR 0xD1, CHR 0x82, CHR 0xD1, CHR 0x96]
      else if ft = Some ''none'' then [CHR 0xF0, CHR 0x9F, CHR 0x93, CHR 0x8B] @ '' '' @ [CHR 0xD0, CHR 0x92, CHR 0xD1, CHR 0x81, CHR 0xD1, CHR 0x96] @ '' '' @ [CHR 0xD0, CHR 0xB7, CHR 0xD0, CHR 0xB0, CHR 0xD0, CHR 0xB4, CHR 0xD0, CHR 0xB0, CHR 0xD1, CHR 0x87, CHR 0xD1, CHR 0x96]
      else [CHR 0xF0, CHR 0x9F, CHR 0x93, CHR 0x8B] @ '' '' @ [CHR 0xD0, CHR 0x97, CHR 0xD0, CHR 0xB0, CHR 0xD0, CHR 0xB4, CHR 0xD0, CHR 0xB0, CHR 0xD1, CHR 0x87, CHR 0xD1, CHR 0x96])"

definition emDash :: string where
  "emDash = [CHR 0xE2, CHR 0x80, CHR 0x94]"

definition projectName :: "task \<Rightarrow> string" where
  "projectName t =
     orDefault (space_name t)
       (orDefault (list_name t) (orDefault (folder_name t) ([CHR 0xD0, CHR 0x91, CHR 0xD0, CHR 0xB5, CHR 0xD0, CHR 0xB7] @ '' '' @ [CHR 0xD0, CHR 0xBF, CHR 0xD1, CHR 0x80, CHR 0xD0, CHR 0xBE, CHR 0xD1, CHR 0x94, CHR 0xD0, CHR 0xBA, CHR 0xD1, CHR 0x82, CHR 0xD1, CHR 0x83])))"

text \<open>The map \<open>groupedByProject\<close>, as the list of its entries in insertion order.\<close>

fun addToGroup :: "string \<Rightarrow> task \<Rightarrow> (string \<times> task list) list \<Rightarrow> (string \<times> task list) list" where
  "addToGroup k t [] = [(k, [t])]"
| "addToGroup k t (g # gs) =
     (if fst g = k then (fst g, snd g @ [t]) # gs else g # addToGroup k t gs)"

fun groupByProject :: "task list \<Rightarrow> (string \<times> task list) list \<Rightarrow> (string \<times> task list) list" where
  "groupByProject [] groups = groups"
| "groupByProject (t # rest) groups = groupByProject rest (addToGroup (projectName t) t groups)"

definition formatTask :: "world \<Rightarrow> task \<Rightarrow> string" where
  "formatTask w t =
     (let status =
            (case task_status t of
               Plain s \<Rightarrow> s
             | Structured s \<Rightarrow> (if s = [] then emDash else s)
             | NoStatus \<Rightarrow> emDash);
          dueDate =
            (if truthy (due_date t) then localeDate w (orDefault (due_date t) []) else emDash);
          taskUrlRaw =
            orDefault (task_url t)
              (orDefault (task_short_url t)
                 (if truthy (task_id t)
                  then ''https://app.clickup.com/t/'' @ orDefault (task_id t) []
                  else []));
          taskUrl = (if taskUrlRaw \<noteq> [] then escapeAttr taskUrlRaw else [])
      in
      (''<b>'' @ [CHR 0xD0, CHR 0xA2, CHR 0xD0, CHR 0xB0, CHR 0xD1, CHR 0x81, CHR 0xD0, CHR 0xBA, CHR 0xD0, CHR 0xB0] @ '':</b> '') @ escapeHtml (task_name t) @ [CHR 0x0A]
      @ (''<b>'' @ [CHR 0xD0, CHR 0xA1, CHR 0xD1, CHR 0x82, CHR 0xD0, CHR 0xB0, CHR 0xD1, CHR 0x82, CHR 0xD1, CHR 0x83, CHR 0xD1, CHR 0x81] @ '':</b> '') @ escapeHtml (if status = [] then emDash else status) @ [CHR 0x0A]
      @ (''<b>'' @ [CHR 0xD0, CHR 0x94, CHR 0xD0, CHR 0xB5, CHR 0xD0, CHR 0xB4, CHR 0xD0, CHR 0xBB, CHR 0xD0, CHR 0xB0, CHR 0xD0, CHR 0xB9, CHR 0xD0, CHR 0xBD] @ '':</b> '') @ escapeHtml dueDate @ [CHR 0x0A]
      @ (if taskUrl \<noteq> []
         then ''<a href='' @ [CHR 0x22] @ taskUrl @ [CHR 0x22] @ ''>'' @ ([CHR 0xF0, CHR 0x9F, CHR 0x94, CHR 0x97] @ '' '' @ [CHR 0xD0, CHR 0x92, CHR 0xD1, CHR 0x96, CHR 0xD0, CHR 0xB4, CHR 0xD0, CHR 0xBA, CHR 0xD1, CHR 0x80, CHR 0xD0, CHR 0xB8, CHR 0xD1, CHR 0x82, CHR 0xD0, CHR 0xB8] @ ''</a>'' @ [CHR 0x0A, CHR 0x0A])
         else [CHR 0xF0, CHR 0x9F, CHR 0x94, CHR 0x97] @ '' '' @ [CHR 0xD0, CHR 0x92, CHR 0xD1, CHR 0x96, CHR 0xD0, CHR 0xB4, CHR 0xD0, CHR 0xBA, CHR 0xD1, CHR 0x80, CHR 0xD0, CHR 0xB8, CHR 0xD1, CHR 0x82, CHR 0xD0, CHR 0xB8, CHR 0x0A, CHR 0x0A]))"

definition formatGroup :: "world \<Rightarrow> string \<times> task list \<Rightarrow> string" where
  "formatGroup w g =
     (''<b>'' @ [CHR 0xD0, CHR 0x9F, CHR 0xD1, CHR 0x80, CHR 0xD0, CHR 0xBE, CHR 0xD0, CHR 0xB5, CHR 0xD0, CHR 0xBA, CHR 0xD1, CHR 0x82] @ '':</b> '') @ escapeHtml (fst g) @ [CHR 0x0A] @ concat (map (formatTask w) (snd g))"

definition formatTasks :: "world \<Rightarrow> config \<Rightarrow> ToolArgs \<Rightarrow> task list \<Rightarrow> string" where
  "formatTasks w cfg a tasks =
     (let displayLimit = 25;
          tasksToShow = take displayLimit tasks;
          title = filterTitle (arg_filterType a)
      in
      if length tasks = 0 then title @ ([CHR 0x0A, CHR 0x0A, CHR 0xE2, CHR 0x9C, CHR 0x85] @ '' '' @ [CHR 0xD0, CHR 0x97, CHR 0xD0, CHR 0xB0, CHR 0xD0, CHR 0xB4, CHR 0xD0, CHR 0xB0, CHR 0xD1, CHR 0x87] @ '' '' @ [CHR 0xD0, CHR 0xBD, CHR 0xD0, CHR 0xB5] @ '' '' @ [CHR 0xD0, CHR 0xB7, CHR 0xD0, CHR 0xBD, CHR 0xD0, CHR 0xB0, CHR 0xD0, CHR 0xB9, CHR 0xD0, CHR 0xB4, CHR 0xD0, CHR 0xB5, CHR 0xD0, CHR 0xBD, CHR 0xD0, CHR 0xBE] @ ''!'')
      else
        (let headerName = orDefault (arg_entityName a) (orDefault (arg_entityId a) emDash);
             peopleUrl = ''https://app.clickup.com/'' @ teamId cfg @ ''/teams-pulse/people'';
             headerLabel =
               ''<a href='' @ [CHR 0x22] @ escapeAttr peopleUrl @ [CHR 0x22] @ ''>''
                 @ escapeHtml headerName @ ''</a>''
         in
         ''<b>'' @ title @ (''</b> '' @ [CHR 0xE2, CHR 0x80, CHR 0x94] @ '' '') @ headerLabel @ '' ('' @ showNat (length tasks)
           @ '')'' @ [CHR 0x0A, CHR 0x0A]
           @ concat (map (formatGroup w) (groupByProject tasksToShow []))
           @ (if displayLimit < length tasks
              then (''<i>+ '' @ [CHR 0xD1, CHR 0x89, CHR 0xD0, CHR 0xB5] @ '' '') @ showNat (length tasks - displayLimit) @ ''</i>''
              else [])))"

definition taskKeywords :: "string list" where
  "taskKeywords =
     [[CHR 0xD1, CHR 0x82, CHR 0xD0, CHR 0xB0, CHR 0xD1, CHR 0x81, CHR 0xD0, CHR 0xBA], ''task'', [CHR 0xD0, CHR 0xB7, CHR 0xD0, CHR 0xB0, CHR 0xD0, CHR 0xB4, CHR 0xD0, CHR 0xB0, CHR 0xD1, CHR 0x87], [CHR 0xD0, CHR 0xBF, CHR 0xD1, CHR 0x80, CHR 0xD0, CHR 0xBE, CHR 0xD1, CHR 0x81, CHR 0xD1, CHR 0x80, CHR 0xD0, CHR 0xBE, CHR 0xD1, CHR 0x87], ''overdue'', [CHR 0xD0, CHR 0xB7, CHR 0xD0, CHR 0xB0, CHR 0xD0, CHR 0xB2, CHR 0xD0, CHR 0xB8, CHR 0xD1, CHR 0x81],
      ''stuck'', [CHR 0xD0, CHR 0xB4, CHR 0xD0, CHR 0xB5, CHR 0xD0, CHR 0xB4, CHR 0xD0, CHR 0xBB, CHR 0xD0, CHR 0xB0, CHR 0xD0, CHR 0xB9, CHR 0xD0, CHR 0xBD], ''deadline'']"

definition isTaskQuery :: "string \<Rightarrow> bool" where
  "isTaskQuery text = someIncluded taskKeywords (toLowerCase text)"

definition cannotAnswerMsg :: string where
  "cannotAnswerMsg = [CHR 0xE2, CHR 0x9A, CHR 0xA0, CHR 0xEF, CHR 0xB8, CHR 0x8F] @ '' '' @ [CHR 0xD0, CHR 0x9F, CHR 0xD0, CHR 0xBE, CHR 0xD0, CHR 0xBC, CHR 0xD0, CHR 0xB8, CHR 0xD0, CHR 0xBB, CHR 0xD0, CHR 0xBA, CHR 0xD0, CHR 0xB0] @ '': '' @ [CHR 0xD0, CHR 0xBD, CHR 0xD0, CHR 0xB5, CHR 0xD0, CHR 0xBC, CHR 0xD0, CHR 0xBE, CHR 0xD0, CHR 0xB6, CHR 0xD0, CHR 0xBB, CHR 0xD0, CHR 0xB8, CHR 0xD0, CHR 0xB2, CHR 0xD0, CHR 0xBE] @ '' '' @ [CHR 0xD0, CHR 0xB2, CHR 0xD1, CHR 0x96, CHR 0xD0, CHR 0xB4, CHR 0xD0, CHR 0xBF, CHR 0xD0, CHR 0xBE, CHR 0xD0, CHR 0xB2, CHR 0xD1, CHR 0x96, CHR 0xD1, CHR 0x81, CHR 0xD1, CHR 0x82, CHR 0xD0, CHR 0xB8] @ '' '' @ [CHR 0xD0, CHR 0xB1, CHR 0xD0, CHR 0xB5, CHR 0xD0, CHR 0xB7] @ '' '' @ [CHR 0xD0, CHR 0xB7, CHR 0xD0, CHR 0xB0, CHR 0xD0, CHR 0xB2, CHR 0xD0, CHR 0xB0, CHR 0xD0, CHR 0xBD, CHR 0xD1, CHR 0x82, CHR 0xD0, CHR 0xB0, CHR 0xD0, CHR 0xB6, CHR 0xD0, CHR 0xB5, CHR 0xD0, CHR 0xBD, CHR 0xD0, CHR 0xBD, CHR 0xD1, CHR 0x8F] @ '' '' @ [CHR 0xD0, CHR 0xB4, CHR 0xD0, CHR 0xB0, CHR 0xD0, CHR 0xBD, CHR 0xD0, CHR 0xB8, CHR 0xD1, CHR 0x85] @ ''. '' @ [CHR 0xD0, CHR 0xA1, CHR 0xD0, CHR 0xBF, CHR 0xD1, CHR 0x80, CHR 0xD0, CHR 0xBE, CHR 0xD0, CHR 0xB1, CHR 0xD1, CHR 0x83, CHR 0xD0, CHR 0xB9, CHR 0xD1, CHR 0x82, CHR 0xD0, CHR 0xB5] @ '' '' @ [CHR 0xD1, CHR 0x89, CHR 0xD0, CHR 0xB5] @ '' '' @ [CHR 0xD1, CHR 0x80, CHR 0xD0, CHR 0xB0, CHR 0xD0, CHR 0xB7] @ ''.''"

definition notFoundMsg :: string where
  "notFoundMsg = [CHR 0xD0, CHR 0xAF] @ '' '' @ [CHR 0xD0, CHR 0xBD, CHR 0xD0, CHR 0xB5] @ '' '' @ [CHR 0xD0, CHR 0xB7, CHR 0xD0, CHR 0xBC, CHR 0xD1, CHR 0x96, CHR 0xD0, CHR 0xB3] @ '' '' @ [CHR 0xD0, CHR 0xB7, CHR 0xD0, CHR 0xBD, CHR 0xD0, CHR 0xB0, CHR 0xD0, CHR 0xB9, CHR 0xD1, CHR 0x82, CHR 0xD0, CHR 0xB8] @ '' '' @ [CHR 0xD0, CHR 0xB2, CHR 0xD1, CHR 0x96, CHR 0xD0, CHR 0xB4, CHR 0xD0, CHR 0xBF, CHR 0xD0, CHR 0xBE, CHR 0xD0, CHR 0xB2, CHR 0xD1, CHR 0x96, CHR 0xD0, CHR 0xB4, CHR 0xD1, CHR 0x8C] @ ''.''"

definition tooManyStepsMsg :: string where
  "tooManyStepsMsg = [CHR 0xD0, CHR 0x97, CHR 0xD0, CHR 0xB0, CHR 0xD0, CHR 0xB1, CHR 0xD0, CHR 0xB0, CHR 0xD0, CHR 0xB3, CHR 0xD0, CHR 0xB0, CHR 0xD1, CHR 0x82, CHR 0xD0, CHR 0xBE] @ '' '' @ [CHR 0xD0, CHR 0xBA, CHR 0xD1, CHR 0x80, CHR 0xD0, CHR 0xBE, CHR 0xD0, CHR 0xBA, CHR 0xD1, CHR 0x96, CHR 0xD0, CHR 0xB2] @ ''. '' @ [CHR 0xD0, CHR 0xA1, CHR 0xD0, CHR 0xBF, CHR 0xD1, CHR 0x80, CHR 0xD0, CHR 0xBE, CHR 0xD0, CHR 0xB1, CHR 0xD1, CHR 0x83, CHR 0xD0, CHR 0xB9, CHR 0xD1, CHR 0x82, CHR 0xD0, CHR 0xB5] @ '' '' @ [CHR 0xD1, CHR 0x83, CHR 0xD1, CHR 0x82, CHR 0xD0, CHR 0xBE, CHR 0xD1, CHR 0x87, CHR 0xD0, CHR 0xBD, CHR 0xD0, CHR 0xB8, CHR 0xD1, CHR 0x82, CHR 0xD0, CHR 0xB8] @ '' '' @ [CHR 0xD0, CHR 0xB7, CHR 0xD0, CHR 0xB0, CHR 0xD0, CHR 0xBF, CHR 0xD0, CHR 0xB8, CHR 0xD1, CHR 0x82] @ ''.''"

definition quotaMsg :: string where
  "quotaMsg = [CHR 0xE2, CHR 0x9D, CHR 0x8C] @ '' <b>'' @ [CHR 0xD0, CHR 0x9A, CHR 0xD0, CHR 0xA0, CHR 0xD0, CHR 0x98, CHR 0xD0, CHR 0xA2, CHR 0xD0, CHR 0x98, CHR 0xD0, CHR 0xA7, CHR 0xD0, CHR 0x9D, CHR 0xD0, CHR 0x90] @ '' '' @ [CHR 0xD0, CHR 0x9F, CHR 0xD0, CHR 0x9E, CHR 0xD0, CHR 0x9C, CHR 0xD0, CHR 0x98, CHR 0xD0, CHR 0x9B, CHR 0xD0, CHR 0x9A, CHR 0xD0, CHR 0x90] @ '':</b> '' @ [CHR 0xD0, CHR 0x97, CHR 0xD0, CHR 0xB0, CHR 0xD0, CHR 0xBA, CHR 0xD1, CHR 0x96, CHR 0xD0, CHR 0xBD, CHR 0xD1, CHR 0x87, CHR 0xD0, CHR 0xB8, CHR 0xD0, CHR 0xBB, CHR 0xD0, CHR 0xB8, CHR 0xD1, CHR 0x81, CHR 0xD1, CHR 0x8C] @ '' '' @ [CHR 0xD0, CHR 0xBA, CHR 0xD0, CHR 0xBE, CHR 0xD1, CHR 0x88, CHR 0xD1, CHR 0x82, CHR 0xD0, CHR 0xB8] @ '' '' @ [CHR 0xD0, CHR 0xBD, CHR 0xD0, CHR 0xB0] @ '' OpenAI API!'' @ [CHR 0x0A, CHR 0x0A, CHR 0xD0, CHR 0x9F, CHR 0xD0, CHR 0xBE, CHR 0xD1, CHR 0x82, CHR 0xD1, CHR 0x80, CHR 0xD1, CHR 0x96, CHR 0xD0, CHR 0xB1, CHR 0xD0, CHR 0xBD, CHR 0xD0, CHR 0xBE] @ '' '' @ [CHR 0xD0, CHR 0xBF, CHR 0xD0, CHR 0xBE, CHR 0xD0, CHR 0xBF, CHR 0xD0, CHR 0xBE, CHR 0xD0, CHR 0xB2, CHR 0xD0, CHR 0xBD, CHR 0xD0, CHR 0xB8, CHR 0xD1, CHR 0x82, CHR 0xD0, CHR 0xB8] @ '' '' @ [CHR 0xD0, CHR 0xB1, CHR 0xD0, CHR 0xB0, CHR 0xD0, CHR 0xBB, CHR 0xD0, CHR 0xB0, CHR 0xD0, CHR 0xBD, CHR 0xD1, CHR 0x81] @ '' '' @ [CHR 0xD0, CHR 0xBD, CHR 0xD0, CHR 0xB0] @ '' https://platform.openai.com/account/billing''"

definition rateLimitMsg :: string where
  "rateLimitMsg = [CHR 0xE2, CHR 0x9A, CHR 0xA0, CHR 0xEF, CHR 0xB8, CHR 0x8F] @ '' '' @ [CHR 0xD0, CHR 0x97, CHR 0xD0, CHR 0xB0, CHR 0xD0, CHR 0xB1, CHR 0xD0, CHR 0xB0, CHR 0xD0, CHR 0xB3, CHR 0xD0, CHR 0xB0, CHR 0xD1, CHR 0x82, CHR 0xD0, CHR 0xBE] @ '' '' @ [CHR 0xD0, CHR 0xB7, CHR 0xD0, CHR 0xB0, CHR 0xD0, CHR 0xBF, CHR 0xD0, CHR 0xB8, CHR 0xD1, CHR 0x82, CHR 0xD1, CHR 0x96, CHR 0xD0, CHR 0xB2] @ '' '' @ [CHR 0xD0, CHR 0xB4, CHR 0xD0, CHR 0xBE] @ '' OpenAI. '' @ [CHR 0xD0, CHR 0x9F, CHR 0xD0, CHR 0xBE, CHR 0xD1, CHR 0x87, CHR 0xD0, CHR 0xB5, CHR 0xD0, CHR 0xBA, CHR 0xD0, CHR 0xB0, CHR 0xD0, CHR 0xB9, CHR 0xD1, CHR 0x82, CHR 0xD0, CHR 0xB5] @ '' '' @ [CHR 0xD1, CHR 0x85, CHR 0xD0, CHR 0xB2, CHR 0xD0, CHR 0xB8, CHR 0xD0, CHR 0xBB, CHR 0xD0, CHR 0xB8, CHR 0xD0, CHR 0xBD, CHR 0xD1, CHR 0x83] @ '' '' @ [CHR 0xD1, CHR 0x96] @ '' '' @ [CHR 0xD1, CHR 0x81, CHR 0xD0, CHR 0xBF, CHR 0xD1, CHR 0x80, CHR 0xD0, CHR 0xBE, CHR 0xD0, CHR 0xB1, CHR 0xD1, CHR 0x83, CHR 0xD0, CHR 0xB9, CHR 0xD1, CHR 0x82, CHR 0xD0, CHR 0xB5] @ '' '' @ [CHR 0xD0, CHR 0xB7, CHR 0xD0, CHR 0xBD, CHR 0xD0, CHR 0xBE, CHR 0xD0, CHR 0xB2, CHR 0xD1, CHR 0x83] @ ''.''"

definition invalidKeyMsg :: string where
  "invalidKeyMsg = [CHR 0xE2, CHR 0x9D, CHR 0x8C] @ '' '' @ [CHR 0xD0, CHR 0x9F, CHR 0xD0, CHR 0xBE, CHR 0xD0, CHR 0xBC, CHR 0xD0, CHR 0xB8, CHR 0xD0, CHR 0xBB, CHR 0xD0, CHR 0xBA, CHR 0xD0, CHR 0xB0] @ '' '' @ [CHR 0xD0, CHR 0xB0, CHR 0xD0, CHR 0xB2, CHR 0xD1, CHR 0x82, CHR 0xD0, CHR 0xBE, CHR 0xD1, CHR 0x80, CHR 0xD0, CHR 0xB8, CHR 0xD0, CHR 0xB7, CHR 0xD0, CHR 0xB0, CHR 0xD1, CHR 0x86, CHR 0xD1, CHR 0x96, CHR 0xD1, CHR 0x97] @ '' OpenAI API. '' @ [CHR 0xD0, CHR 0x9F, CHR 0xD0, CHR 0xB5, CHR 0xD1, CHR 0x80, CHR 0xD0, CHR 0xB5, CHR 0xD0, CHR 0xB2, CHR 0xD1, CHR 0x96, CHR 0xD1, CHR 0x80, CHR 0xD1, CHR 0x82, CHR 0xD0, CHR 0xB5] @ '' OPENAI_API_KEY.''"

definition modelNotFoundMsg :: string where
  "modelNotFoundMsg = [CHR 0xE2, CHR 0x9D, CHR 0x8C] @ '' '' @ [CHR 0xD0, CHR 0x9C, CHR 0xD0, CHR 0xBE, CHR 0xD0, CHR 0xB4, CHR 0xD0, CHR 0xB5, CHR 0xD0, CHR 0xBB, CHR 0xD1, CHR 0x8C] @ '' OpenAI '' @ [CHR 0xD0, CHR 0xBD, CHR 0xD0, CHR 0xB5] @ '' '' @ [CHR 0xD0, CHR 0xB7, CHR 0xD0, CHR 0xBD, CHR 0xD0, CHR 0xB0, CHR 0xD0, CHR 0xB9, CHR 0xD0, CHR 0xB4, CHR 0xD0, CHR 0xB5, CHR 0xD0, CHR 0xBD, CHR 0xD0, CHR 0xB0] @ ''. '' @ [CHR 0xD0, CHR 0x9F, CHR 0xD0, CHR 0xB5, CHR 0xD1, CHR 0x80, CHR 0xD0, CHR 0xB5, CHR 0xD0, CHR 0xB2, CHR 0xD1, CHR 0x96, CHR 0xD1, CHR 0x80, CHR 0xD1, CHR 0x82, CHR 0xD0, CHR 0xB5] @ '' '' @ [CHR 0xD0, CHR 0xBD, CHR 0xD0, CHR 0xB0, CHR 0xD0, CHR 0xBB, CHR 0xD0, CHR 0xB0, CHR 0xD1, CHR 0x88, CHR 0xD1, CHR 0x82, CHR 0xD1, CHR 0x83, CHR 0xD0, CHR 0xB2, CHR 0xD0, CHR 0xB0, CHR 0xD0, CHR 0xBD, CHR 0xD0, CHR 0xBD, CHR 0xD1, CHR 0x8F] @ '' OPENAI_MODEL.''"

text \<open>
  The \<^verbatim>\<open>catch\<close> around an iteration, on an error of the completion service: four
  kinds map to a fixed text that is returned, any other error is thrown on.
\<close>

definition completionFailure :: "ApiError \<Rightarrow> error + string" where
  "completionFailure e =
     (if err_code e = Some ''insufficient_quota'' \<or> err_type e = Some ''insufficient_quota''
        then Inr quotaMsg
      else if err_status e = Some 429 \<or> err_code e = Some ''rate_limit_exceeded''
        then Inr rateLimitMsg
      else if err_status e = Some 401 \<or> err_code e = Some ''invalid_api_key''
        then Inr invalidKeyMsg
      else if err_status e = Some 404 \<or> err_code e = Some ''model_not_found''
        then Inr modelNotFoundMsg
      else Inl (CompletionError (err_status e) (err_code e) (err_type e)))"

text \<open>
  What \<open>handleMessage\<close> leaves behind: the text it returns or the error it throws, the
  store, and the \<open>tool_choice\<close> of every completion call it issued, in order. The
  source keeps no such list of calls; it is carried to state how many there were and how
  tool use was set on each.
\<close>

record outcome =
  result :: "error + string"
  final_store :: store
  completions :: "tool_choice list"

definition reply :: "store \<Rightarrow> nat \<Rightarrow> string \<Rightarrow> tool_choice list \<Rightarrow> string \<Rightarrow> outcome" where
  "reply st userId text calls answer =
     \<lparr>result = Inr answer,
      final_store = saveMessage (saveMessage st userId User text) userId Assistant answer,
      completions = calls\<rparr>"

definition errorText :: "error \<Rightarrow> string" where
  "errorText e =
     (case e of
        UnknownEntityType t \<Rightarrow> ''Error: Unknown entity type: '' @ interpolate t
      | JsonSyntaxError \<Rightarrow> ''SyntaxError''
      | CompletionError s c t \<Rightarrow> ''Error'')"

text \<open>
  The loop over the tool calls of one assistant message: it either returns from
  \<open>handleMessage\<close> (the direct answer of \<open>load_and_filter_tasks\<close>, or an exception
  that leaves the iteration), or runs to the end with the tool messages pushed.
\<close>

datatype toolsOutcome = Returned "error + string" store | Continue store "ChatMessage list"

fun runToolCalls ::
  "world \<Rightarrow> settings \<Rightarrow> nat \<Rightarrow> string \<Rightarrow> store \<Rightarrow> ChatMessage list \<Rightarrow> ToolCall list
   \<Rightarrow> toolsOutcome" where
  "runToolCalls w env userId text st messages [] = Continue st messages"
| "runToolCalls w env userId text st messages (toolCall # rest) =
     (if call_type toolCall \<noteq> ''function'' then runToolCalls w env userId text st messages rest
      else
        (case call_args toolCall of
           SyntaxErr \<Rightarrow> Returned (Inl JsonSyntaxError) st
         | JsonNull \<Rightarrow>
             (if call_name toolCall = ''load_and_filter_tasks''
                 \<or> call_name toolCall = ''update_context''
                 \<or> call_name toolCall = ''get_time_tracked''
              then runToolCalls w env userId text st
                     (messages @ [ToolMessage (call_id toolCall) (ToolFailed ''TypeError'')]) rest
              else runToolCalls w env userId text st
                     (messages @ [ToolMessage (call_id toolCall) (UnknownTool (call_name toolCall))])
                     rest)
         | JsonObject a \<Rightarrow>
             (if call_name toolCall = ''load_and_filter_tasks'' then
                (case processQuery (tracker w) env (clock w)
                        \<lparr>entityType = arg_entityType a, entityId = arg_entityId a,
                         entityName = arg_entityName a, filterType = arg_filterType a\<rparr> of
                   Inl e \<Rightarrow>
                     runToolCalls w env userId text st
                       (messages @ [ToolMessage (call_id toolCall) (ToolFailed (errorText e))]) rest
                 | Inr tasks \<Rightarrow>
                     (let formattedText = formatTasks w (env_config env) a tasks;
                          st1 =
                            (if arg_entityType a = Some ''person'' \<and> truthy (arg_entityId a)
                                \<and> truthy (arg_entityName a)
                             then updateState st userId
                                    (personContext (arg_entityId a) (arg_entityName a))
                             else st)
                      in Returned (Inr formattedText)
                           (saveMessage (saveMessage st1 userId User text) userId Assistant
                              formattedText)))
              else if call_name toolCall = ''update_context'' then
                runToolCalls w env userId text
                  (updateState st userId (personContext (arg_personId a) (arg_personName a)))
                  (messages
                     @ [ToolMessage (call_id toolCall)
                          (ContextUpdated (arg_personId a) (arg_personName a))])
                  rest
              else if call_name toolCall = ''get_time_tracked'' then
                runToolCalls w env userId text st
                  (messages @ [ToolMessage (call_id toolCall) (TimeTracked (timeTracked w a))]) rest
              else
                runToolCalls w env userId text st
                  (messages @ [ToolMessage (call_id toolCall) (UnknownTool (call_name toolCall))])
                  rest)))"

text \<open>
  The \<^verbatim>\<open>while (iterations < 6)\<close> loop of \<open>handleMessage\<close>, entered with the
  current value of \<open>iterations\<close>.
\<close>

function agentLoop ::
  "world \<Rightarrow> settings \<Rightarrow> nat \<Rightarrow> string \<Rightarrow> store \<Rightarrow> ChatMessage list \<Rightarrow> nat
   \<Rightarrow> tool_choice list \<Rightarrow> outcome" where
  "agentLoop w env userId text st messages iterations calls =
     (if iterations < 6 then
        (let forceTools = (Suc iterations = 1 \<and> isTaskQuery text);
             choice = (if forceTools then Required else Auto)
         in
         case openai w messages choice of
           Throws e \<Rightarrow>
             \<lparr>result = completionFailure e, final_store = st, completions = calls @ [choice]\<rparr>
         | Choice None \<Rightarrow>
             \<lparr>result = Inr tooManyStepsMsg, final_store = st, completions = calls @ [choice]\<rparr>
         | Choice (Some message) \<Rightarrow>
             (if tool_calls message = [] then
                (if Suc iterations = 1 \<and> isTaskQuery text
                 then reply st userId text (calls @ [choice]) cannotAnswerMsg
                 else reply st userId text (calls @ [choice])
                        (orDefault (content message) notFoundMsg))
              else
                (case runToolCalls w env userId text st (messages @ [AssistantTurn message])
                        (tool_calls message) of
                   Returned r st' \<Rightarrow>
                     \<lparr>result = r, final_store = st', completions = calls @ [choice]\<rparr>
                 | Continue st' messages' \<Rightarrow>
                     agentLoop w env userId text st' messages' (Suc iterations)
                       (calls @ [choice]))))
      else \<lparr>result = Inr tooManyStepsMsg, final_store = st, completions = calls\<rparr>)"
  by pat_completeness auto
termination
  by (relation "measure (\<lambda>(w, env, userId, text, st, messages, iterations, calls). 6 - iterations)")
    auto

declare agentLoop.simps [simp del]

definition initialMessages :: "world \<Rightarrow> store \<Rightarrow> nat \<Rightarrow> string \<Rightarrow> ChatMessage list" where
  "initialMessages w st userId text =
     [SystemMessage (systemPrompt w (getState st userId))]
     @ buildHistoryMessages (getRecentMessages st userId 10)
     @ [UserMessage text]"

definition handleMessage :: "world \<Rightarrow> settings \<Rightarrow> store \<Rightarrow> nat \<Rightarrow> string \<Rightarrow> outcome" where
  "handleMessage w env st userId text =
     (case buildTeamInfoResponse w (env_members env) text of
        Some teamInfoResponse \<Rightarrow>
          if teamInfoResponse \<noteq> [] then reply st userId text [] teamInfoResponse
          else agentLoop w env userId text st (initialMessages w st userId text) 0 []
      | None \<Rightarrow> agentLoop w env userId text st (initialMessages w st userId text) 0 [])"


section \<open>Sample data\<close>

text \<open>
  A configuration whose zone is two hours ahead of UTC all year, two tasks and a tracker,
  used to run the definitions on concrete inputs.
\<close>

definition demoConfig :: config where
  "demoConfig = \<lparr>timezone = (\<lambda>t. 7200000), teamId = ''9001''\<rparr>"

definition demoTask :: task where
  "demoTask =
     \<lparr>task_id = Some ''t1'', task_name = ''Write report'', task_status = Structured ''Open'',
      due_date = Some ''86400000'', date_created = Some ''0'',
      assignees = [AssigneeObj (Some ''ann'') None (Some 7)],
      list_name = Some ''Ops'', folder_name = None, space_name = None,
      task_url = Some ''https://app.clickup.com/t/t1'', task_short_url = None\<rparr>"

definition demoUndated :: task where
  "demoUndated = demoTask\<lparr>due_date := Some []\<rparr>"

text \<open>
  A zone with Lisbon's clock changes of 2024: at UTC from 2024-10-27 01:00 UTC and before
  2024-03-31 01:00 UTC, an hour ahead in between. A task due on 2024-10-27 at 00:30 of
  that zone, before the clocks go back.
\<close>

definition lisbonZone :: zone where
  "lisbonZone t = (if 1711846800000 \<le> t \<and> t < 1729990800000 then 3600000 else 0)"

definition lisbonConfig :: config where
  "lisbonConfig = \<lparr>timezone = lisbonZone, teamId = ''9001''\<rparr>"





text \<open>
  A tracker whose person 7 has one page of one task and whose next page fails, and whose
  list \<open>L1\<close> is empty.
\<close>

definition demoApi :: clickup where
  "demoApi endpoint =
     (if endpoint = personEndpoint demoConfig ''7'' 0 then Body (Some [demoTask])
      else if endpoint = personEndpoint demoConfig ''7'' 1 then Fails
      else Body (Some []))"

definition demoDepartments :: Departments where
  "demoDepartments key =
     (if key = ''ops'' then Some \<lparr>list_ids = Some [''L1''], space_ids = None, aliases = None\<rparr>
      else if key = ''design'' then Some \<lparr>list_ids = None, space_ids = Some [''S1''], aliases = None\<rparr>
      else None)"

definition demoMembers :: "MemberConfig list" where
  "demoMembers =
     [\<lparr>member_id = 7, member_name = ''Ann <Lead>'', member_username = Some ''ann'',
       member_email = None, member_aliases = [], member_role = Some ''R&D'',
       exclude_from_counts = False\<rparr>]"

definition demoSettings :: settings where
  "demoSettings =
     \<lparr>env_config = demoConfig, env_departments = demoDepartments, env_members = demoMembers\<rparr>"

definition departmentQuery :: "string \<Rightarrow> QueryClassification" where
  "departmentQuery key =
     \<lparr>entityType = Some ''department'', entityId = Some key, entityName = None,
      filterType = Some ''overdue''\<rparr>"

text \<open>
  Tasks for the leaderboard: one of bob due on the day of \<open>259200000\<close>, and two of ann,
  one overdue and one due that day. An undated open task whose status is a plain string,
  and a task whose assignee's name carries markup.
\<close>

definition demoBobToday :: task where
  "demoBobToday =
     demoTask\<lparr>task_name := ''Call client'', due_date := Some ''259200000'',
              assignees := [AssigneeName ''bob'']\<rparr>"

definition demoAnnToday :: task where
  "demoAnnToday = demoTask\<lparr>task_name := ''Review'', due_date := Some ''259200000''\<rparr>"

definition demoTasks :: "task list" where
  "demoTasks = [demoBobToday, demoTask, demoAnnToday]"

definition demoPlain :: task where
  "demoPlain = demoTask\<lparr>task_status := Plain ''open'', due_date := None\<rparr>"

definition demoMarkup :: task where
  "demoMarkup = demoTask\<lparr>assignees := [AssigneeObj (Some ''Eve <i>&'') None (Some 9)]\<rparr>"

text \<open>
  An empty store, and worlds whose completion service gives no message, is throttled, asks
  for \<open>update_context\<close> on every turn, or answers in prose at once.
\<close>

definition demoStore :: store where
  "demoStore = \<lparr>store_messages = [], store_states = (\<lambda>u. personContext None None)\<rparr>"

definition silentWorld :: world where
  "silentWorld =
     \<lparr>openai = (\<lambda>messages choice. Choice None), tracker = demoApi, clock = 259200000,
      timeTracked = (\<lambda>a. []), localeDate = (\<lambda>s. ''02.01''), systemPrompt = (\<lambda>s. ''prompt''),
      roleQuery = (\<lambda>t. False), countQuery = (\<lambda>t. False), listQuery = (\<lambda>t. False)\<rparr>"

definition throttledWorld :: world where
  "throttledWorld =
     silentWorld\<lparr>openai := \<lambda>messages choice.
        Throws \<lparr>err_status = Some 429, err_code = None, err_type = None\<rparr>\<rparr>"

definition contextCall :: ToolCall where
  "contextCall =
     \<lparr>call_id = ''call_1'', call_type = ''function'', call_name = ''update_context'',
      call_args = JsonObject
        \<lparr>arg_entityType = None, arg_entityId = None, arg_entityName = None, arg_filterType = None,
         arg_personId = Some ''7'', arg_personName = Some ''Ann'', arg_period = None\<rparr>\<rparr>"

definition contextTurn :: AssistantMessage where
  "contextTurn = \<lparr>content = None, tool_calls = [contextCall]\<rparr>"

definition loopingWorld :: world where
  "loopingWorld =
     silentWorld\<lparr>openai := \<lambda>messages choice.
        Choice (Some contextTurn)\<rparr>"

definition chattyWorld :: world where
  "chattyWorld =
     silentWorld\<lparr>openai := \<lambda>messages choice.
        Choice (Some \<lparr>content = Some ''You have no overdue tasks.'', tool_calls = []\<rparr>)\<rparr>"

definition rosterWorld :: world where
  "rosterWorld = chattyWorld\<lparr>countQuery := \<lambda>t. True\<rparr>"

section \<open>Evaluation on concrete inputs\<close>

lemmas char_eval = char_of_def bit_Suc_0_iff

lemmas number_eval =
  jsNumber_def trimBlanks_def blanks_def radixLiteral_def unsignedDecimal_def exponentPart_def
  negated_def isDigit_def radixDigit_def fromMillis_def MAX_DATE_def

text \<open>\<open>Number\<close> on some texts: an exponent, a sign and blanks, a radix prefix, a fraction.\<close>

lemma jsNumber_samples:
  "jsNumber ''86400000'' = Num 86400000 0"
  "jsNumber ''864e5'' = Num 864 5"
  "jsNumber '' +86400000 '' = Num 86400000 0"
  "jsNumber ''0x1F'' = Num 31 0"
  "jsNumber ''-12.50e1'' = Num (- 1250) (- 1)"
  "jsNumber [] = Num 0 0"
  "jsNumber ''12px'' = NaN"
  "jsNumber ''1e'' = NaN"
  by (simp_all add: number_eval)

lemma fromMillis_samples:
  "fromMillis (jsNumber ''864e5'') = Some 86400000"
  "fromMillis (jsNumber ''-12.50e1'') = Some (- 125)"
  "fromMillis (jsNumber ''1e16'') = None"
  "fromMillis (jsNumber ''Infinity'') = None"
  by (simp_all add: number_eval)

text \<open>
  The clock of the sample configuration, a zone two hours ahead of UTC all year, and the
  readings and ages that the sample tasks use.
\<close>

lemma demo_reads:
  "fromMillis (jsNumber ''0'') = Some 0"
  "fromMillis (jsNumber ''86400000'') = Some 86400000"
  "fromMillis (jsNumber ''259200000'') = Some 259200000"
  by (simp_all add: number_eval)

lemma demo_clock:
  "calendarDay demoConfig x = (x + 7200000) div 86400000"
  "plusDays demoConfig x k = x + k * 86400000"
  "startOfDay demoConfig (Some x) = Some ((x + 7200000) div 86400000 * 86400000 - 7200000)"
  by (simp_all add: calendarDay_def plusDays_def startOfDay_def fixOffset_def demoConfig_def)

lemma demo_highOrderDiffs:
  "highOrderDiffs demoConfig 0 172800000 = (172800000, 2, 172800000)"
  "highOrderDiffs demoConfig 0 259200000 = (259200000, 3, 259200000)"
  by (simp_all add: highOrderDiffs_def demo_clock)

lemma demo_age:
  "diffDays demoConfig (Some 172800000) (Some 0) = Some 2"
  "diffDays demoConfig (Some 259200000) (Some 0) = Some 3"
  by (simp_all add: diffDays_def demo_highOrderDiffs demo_clock)

lemmas demo_time = demo_reads demo_clock demo_age dateLess_def toFormat_def

section \<open>Pagination of a person's tasks\<close>

lemma pagesFrom_fetched:
  "snd (pagesFrom api cfg pid page acc n) \<le> n + (10 - page)"
proof (induction api cfg pid page acc n rule: pagesFrom.induct)
  case (1 api cfg personId page allTasks fetched)
  show ?case
  proof (cases "page < 10")
    case False
    then show ?thesis by (simp add: pagesFrom.simps)
  next
    case True
    show ?thesis
    proof (cases "api (personEndpoint cfg personId page)")
      case Fails
      with True show ?thesis by (simp add: pagesFrom.simps)
    next
      case (Body r)
      show ?thesis
      proof (cases "(case r of None \<Rightarrow> [] | Some ts \<Rightarrow> ts) = []")
        case True
        with \<open>page < 10\<close> Body show ?thesis by (simp add: pagesFrom.simps [of _ _ _ page])
      next
        case False
        from "1.IH" [OF \<open>page < 10\<close> Body refl False]
        have "snd (pagesFrom api cfg personId (Suc page)
                 (allTasks @ (case r of None \<Rightarrow> [] | Some ts \<Rightarrow> ts)) (Suc fetched))
              \<le> Suc fetched + (10 - Suc page)" .
        with \<open>page < 10\<close> Body False show ?thesis
          by (simp add: pagesFrom.simps [of _ _ _ page])
      qed
    qed
  qed
qed

text \<open>
  When pages \<open>j\<close> to \<open>k - 1\<close> answer with tasks and the fetch of page \<open>k\<close> fails,
  the loop started at page \<open>j\<close> returns what it had plus those pages, after
  \<open>k - j + 1\<close> fetches.
\<close>

lemma pagesFrom_until_failure:
  assumes "k < 10" and "j \<le> k"
    and "\<forall>i. j \<le> i \<and> i < k \<longrightarrow>
           api (personEndpoint cfg pid i) = Body (Some (pages i)) \<and> pages i \<noteq> []"
    and "api (personEndpoint cfg pid k) = Fails"
  shows "pagesFrom api cfg pid j acc n = (acc @ concat (map pages [j..<k]), Suc (n + (k - j)))"
  using assms
proof (induction "k - j" arbitrary: j acc n)
  case 0
  then have "j = k" by simp
  with 0 show ?case by (simp add: pagesFrom.simps [of _ _ _ k])
next
  case (Suc d)
  then have lt: "j < k" by simp
  with Suc.prems have pg: "api (personEndpoint cfg pid j) = Body (Some (pages j))" "pages j \<noteq> []"
    by auto
  have step: "pagesFrom api cfg pid (Suc j) (acc @ pages j) (Suc n)
      = ((acc @ pages j) @ concat (map pages [Suc j..<k]), Suc (Suc n + (k - Suc j)))"
    using Suc.hyps Suc.prems lt by (intro Suc.hyps(1)) auto
  from lt Suc.prems(1) have "j < 10" by simp
  with pg step lt show ?case
    by (simp add: pagesFrom.simps [of _ _ _ j] upt_conv_Cons)
qed

text \<open>
  Claim C3. Whatever the tracker answers, \<open>loadPersonTasks\<close> issues at most 10 page
  fetches. If page 0 holds no task it stops after that one fetch with the empty list. If
  pages \<open>0\<close> to \<open>k - 1\<close> hold tasks and the fetch of page \<open>k\<close> raises, the tasks
  of those pages are returned, after \<open>k + 1\<close> fetches, and \<open>loadTasks\<close> hands them on
  as a normal result (\<open>Inr\<close>), not as an error.
\<close>

theorem loadPersonTasks_bounded_partial:
  "personFetches api cfg pid \<le> 10
   \<and> (api (personEndpoint cfg pid 0) = Body (Some [])
        \<or> api (personEndpoint cfg pid 0) = Body None
      \<longrightarrow> loadPersonTasks api cfg pid = [] \<and> personFetches api cfg pid = 1)
   \<and> (k < 10
        \<and> (\<forall>i<k. api (personEndpoint cfg pid i) = Body (Some (pages i)) \<and> pages i \<noteq> [])
        \<and> api (personEndpoint cfg pid k) = Fails
      \<longrightarrow> loadPersonTasks api cfg pid = concat (map pages [0..<k])
        \<and> personFetches api cfg pid = Suc k
        \<and> loadTasks api env
             \<lparr>entityType = Some ''person'', entityId = Some pid, entityName = nm,
              filterType = ft\<rparr>
            = Inr (loadPersonTasks api (env_config env) pid))"
proof (intro conjI impI)
  show "personFetches api cfg pid \<le> 10"
    using pagesFrom_fetched [of api cfg pid 0 "[]" 0] by (simp add: personFetches_def)
next
  assume "api (personEndpoint cfg pid 0) = Body (Some [])
            \<or> api (personEndpoint cfg pid 0) = Body None"
  then have "pagesFrom api cfg pid 0 [] 0 = ([], 1)"
    by (auto simp: pagesFrom.simps [of _ _ _ 0])
  then show "loadPersonTasks api cfg pid = []" "personFetches api cfg pid = 1"
    by (simp_all add: loadPersonTasks_def personFetches_def)
next
  assume a: "k < 10
        \<and> (\<forall>i<k. api (personEndpoint cfg pid i) = Body (Some (pages i)) \<and> pages i \<noteq> [])
        \<and> api (personEndpoint cfg pid k) = Fails"
  then have "pagesFrom api cfg pid 0 [] 0 = ([] @ concat (map pages [0..<k]), Suc (0 + (k - 0)))"
    by (intro pagesFrom_until_failure) auto
  then show "loadPersonTasks api cfg pid = concat (map pages [0..<k])"
    "personFetches api cfg pid = Suc k"
    by (simp_all add: loadPersonTasks_def personFetches_def)
  show "loadTasks api env
          \<lparr>entityType = Some ''person'', entityId = Some pid, entityName = nm, filterType = ft\<rparr>
        = Inr (loadPersonTasks api (env_config env) pid)"
    by (simp add: loadTasks_def interpolate_def)
qed

lemma demoApi_pages:
  "demoApi (personEndpoint demoConfig ''7'' 0) = Body (Some [demoTask])"
  "demoApi (personEndpoint demoConfig ''7'' (Suc 0)) = Fails"
  "demoApi (personEndpoint demoConfig ''8'' 0) = Body (Some [])"
  by (simp_all add: demoApi_def personEndpoint_def demoConfig_def showNat.simps char_eval)

theorem loadPersonTasks_bounded_partial_witness:
  "personFetches demoApi demoConfig ''7'' = 2
   \<and> loadPersonTasks demoApi demoConfig ''7'' = [demoTask]
   \<and> loadTasks demoApi demoSettings
        \<lparr>entityType = Some ''person'', entityId = Some ''7'', entityName = None,
         filterType = None\<rparr>
       = Inr [demoTask]
   \<and> loadPersonTasks demoApi demoConfig ''8'' = []
   \<and> personFetches demoApi demoConfig ''8'' = 1"
  using loadPersonTasks_bounded_partial
          [of demoApi demoConfig "''7''" 1 "\<lambda>i. [demoTask]" demoSettings None None]
        loadPersonTasks_bounded_partial [of demoApi demoConfig "''8''" 0 "\<lambda>i. []"]
  by (simp add: demoApi_pages demoSettings_def)

section \<open>Unknown departments\<close>

lemma applyFilters_Nil: "applyFilters cfg now [] ft = []"
  by (simp add: applyFilters_def filterInProgress_def filterOverdue_def filterStuck_def
      filterDueToday_def)

lemma loadLists_no_tasks:
  "\<forall>i\<in>set ids. api (listEndpoint i) = Body (Some []) \<Longrightarrow> loadLists api ids acc = acc"
  by (induction ids arbitrary: acc) auto

text \<open>
  Claim C10. For a department classification whose key is not in the department table,
  or whose entry has no \<open>list_ids\<close>, \<open>processQuery\<close> returns the empty list as a
  normal result, under every filter. A configured department all of whose lists hold no
  task gives the very same result, so the caller cannot tell the two apart.
\<close>

theorem unknown_department_empty:
  "(entityType c = Some ''department''
      \<and> (env_departments env (interpolate (entityId c)) = None
           \<or> (\<exists>d. env_departments env (interpolate (entityId c)) = Some d \<and> list_ids d = None))
    \<longrightarrow> processQuery api env now c = Inr [])
   \<and> (entityType c' = Some ''department''
      \<and> env_departments env (interpolate (entityId c')) = Some d'
      \<and> list_ids d' = Some ids
      \<and> (\<forall>i\<in>set ids. api (listEndpoint i) = Body (Some []))
    \<longrightarrow> processQuery api env now c' = Inr [])"
  by (auto simp: processQuery_def loadTasks_def loadDepartmentTasks_def applyFilters_Nil
      loadLists_no_tasks)

theorem unknown_department_empty_witness:
  "processQuery demoApi demoSettings 172800000 (departmentQuery ''nowhere'') = Inr []
   \<and> processQuery demoApi demoSettings 172800000 (departmentQuery ''design'') = Inr []
   \<and> processQuery demoApi demoSettings 172800000 (departmentQuery ''ops'') = Inr []"
  using unknown_department_empty
          [of "departmentQuery ''nowhere''" demoSettings demoApi 172800000
              "departmentQuery ''ops''"
              "\<lparr>list_ids = Some [''L1''], space_ids = None, aliases = None\<rparr>" "[''L1'']"]
        unknown_department_empty
          [of "departmentQuery ''design''" demoSettings demoApi 172800000
              "departmentQuery ''ops''"
              "\<lparr>list_ids = Some [''L1''], space_ids = None, aliases = None\<rparr>" "[''L1'']"]
  by (simp add: departmentQuery_def demoSettings_def demoDepartments_def interpolate_def
      demoApi_def listEndpoint_def personEndpoint_def)

section \<open>Overdue and due today\<close>


text \<open>In a zone whose offset never changes, every day has a settled midnight.\<close>

lemma settledMidnight_fixed_zone:
  "timezone cfg = (\<lambda>t. c) \<Longrightarrow> settledMidnight cfg d c"
  by (simp add: settledMidnight_def)











text \<open>
  Days are counted on the zone's calendar: from noon of 2024-03-30 to noon of
  2024-03-31, the day the clocks go forward, 23 hours pass and the age is one day.
\<close>

lemma lisbon_age:
  "diffDays lisbonConfig (Some 1711882800000) (Some 1711800000000) = Some 1"
proof -
  have plus: "plusDays lisbonConfig 1711800000000 1 = 1711882800000"
    by (simp add: plusDays_def fixOffset_def lisbonConfig_def lisbonZone_def)
  have days: "calendarDay lisbonConfig 1711882800000 - calendarDay lisbonConfig 1711800000000 = 1"
    by (simp add: calendarDay_def lisbonConfig_def lisbonZone_def)
  have "highOrderDiffs lisbonConfig 1711800000000 1711882800000
          = (1711882800000, 1, 1711882800000)"
    by (simp add: highOrderDiffs_def days plus)
  then show ?thesis by (simp add: diffDays_def)
qed


text \<open>
  A due date that is the empty string, or that does not read as a valid instant, is
  dropped by both filters.
\<close>

lemma unreadable_due_date_dropped:
  "due_date t = Some s \<Longrightarrow> s = [] \<or> fromMillis (jsNumber s) = None
   \<Longrightarrow> \<not> overdueTask cfg now t \<and> \<not> dueTodayTask cfg now t"
  by (auto simp: overdueTask_def dueTodayTask_def truthy_def orDefault_def
      startOfDay_def dateLess_def toFormat_def)

section \<open>Stuck tasks\<close>

text \<open>
  Claim C2 as stated fails: the stuck filter tests the due date for truthiness, so it
  keeps an undated task whose \<open>due_date\<close> is the empty string, which is not null; and
  putting the empty string in place of a null due date leaves the task stuck.
\<close>

theorem stuck_with_non_null_due_date:
  "demoUndated \<in> set (filterStuck demoConfig 172800000 [demoUndated])
   \<and> due_date demoUndated \<noteq> None
   \<and> filterStuck demoConfig 172800000 [demoUndated\<lparr>due_date := None\<rparr>]
       = [demoUndated\<lparr>due_date := None\<rparr>]
   \<and> filterStuck demoConfig 172800000 [(demoUndated\<lparr>due_date := None\<rparr>)\<lparr>due_date := Some []\<rparr>]
       \<noteq> []"
  by (simp add: filterStuck_def stuckTask_def demoUndated_def demoTask_def
      truthy_def getStatusString_def lowerAscii_def someIncluded_def activeStatuses_def
      orDefault_def demo_time char_eval)

lemma stuckTask_falsy_due_date: "stuckTask cfg now t \<Longrightarrow> \<not> truthy (due_date t)"
  by (simp add: stuckTask_def split: if_splits)

text \<open>
  Claim C2, amended. If the stuck filter keeps a task, its \<open>due_date\<close> is null or the
  empty string; and replacing the due date of a task the filter keeps by any non-empty
  string gives a task the filter rejects.
\<close>

theorem stuck_has_no_due_date:
  "t \<in> set (filterStuck cfg now ts)
   \<Longrightarrow> (due_date t = None \<or> due_date t = Some [])
     \<and> (\<forall>v. v \<noteq> [] \<longrightarrow> filterStuck cfg now [t\<lparr>due_date := Some v\<rparr>] = [])"
proof -
  assume "t \<in> set (filterStuck cfg now ts)"
  then have "stuckTask cfg now t" by (simp add: filterStuck_def)
  then have "\<not> truthy (due_date t)" by (rule stuckTask_falsy_due_date)
  then have "due_date t = None \<or> due_date t = Some []"
    by (cases "due_date t") (simp_all add: truthy_def)
  moreover have "\<forall>v. v \<noteq> [] \<longrightarrow> filterStuck cfg now [t\<lparr>due_date := Some v\<rparr>] = []"
    by (simp add: filterStuck_def stuckTask_def truthy_def)
  ultimately show ?thesis by simp
qed

theorem stuck_has_no_due_date_witness:
  "demoUndated \<in> set (filterStuck demoConfig 172800000 [demoUndated])
   \<and> (due_date demoUndated = None \<or> due_date demoUndated = Some [])
   \<and> filterStuck demoConfig 172800000 [demoUndated\<lparr>due_date := Some ''86400000''\<rparr>] = []"
proof -
  have kept: "demoUndated \<in> set (filterStuck demoConfig 172800000 [demoUndated])"
    by (simp add: filterStuck_def stuckTask_def demoUndated_def demoTask_def
        truthy_def getStatusString_def lowerAscii_def someIncluded_def activeStatuses_def
        orDefault_def demo_time char_eval)
  from stuck_has_no_due_date [OF kept] kept show ?thesis by simp
qed

section \<open>The leaderboard\<close>

lemma hasKey_iff: "hasKey m k \<longleftrightarrow> k \<in> set (map fst m)"
  by (induction m) (auto simp: hasKey_def)

lemma keys_updateEntry: "map fst (updateEntry k f m) = map fst m"
  by (induction m) auto

lemma keys_tally:
  "map fst (tally d a b c n m) = (if n \<in> set (map fst m) then map fst m else map fst m @ [n])"
  by (simp add: tally_def keys_updateEntry hasKey_iff)

lemma set_firstSeen: "set (firstSeen xs) = set xs"
  by (induction xs) auto

lemma firstSeen_append:
  "firstSeen (xs @ ys) = firstSeen xs @ filter (\<lambda>y. y \<notin> set xs) (firstSeen ys)"
proof (induction xs)
  case Nil
  show ?case by simp
next
  case (Cons x xs)
  have "filter (\<lambda>y. y \<noteq> x) (filter (\<lambda>y. y \<notin> set xs) (firstSeen ys))
      = filter (\<lambda>y. y \<notin> set (x # xs)) (firstSeen ys)"
    by (simp add: conj_commute)
  with Cons show ?case by simp
qed

lemma keys_tallyAssignees:
  "map fst (tallyAssignees d a b c as m)
   = map fst m @ filter (\<lambda>n. n \<notin> set (map fst m))
       (firstSeen (filter (\<lambda>n. n \<noteq> [] \<and> n \<noteq> ''Unknown'') (map assigneeName as)))"
proof (induction as arbitrary: m)
  case Nil
  show ?case by simp
next
  case (Cons x as)
  let ?n = "assigneeName x"
  let ?rest = "firstSeen (filter (\<lambda>n. n \<noteq> [] \<and> n \<noteq> ''Unknown'') (map assigneeName as))"
  show ?case
  proof (cases "?n = [] \<or> ?n = ''Unknown''")
    case True
    with Cons show ?thesis by auto
  next
    case False
    show ?thesis
    proof (cases "?n \<in> set (map fst m)")
      case True
      then have "filter (\<lambda>n. n \<notin> set (map fst m)) (filter (\<lambda>y. y \<noteq> ?n) ?rest)
                 = filter (\<lambda>n. n \<notin> set (map fst m)) ?rest"
        by (auto intro: filter_cong)
      with True False Cons [of "tally d a b c ?n m"] show ?thesis
        by (simp add: keys_tally Let_def)
    next
      case notin: False
      have "filter (\<lambda>n. n \<notin> set (map fst m)) (filter (\<lambda>y. y \<noteq> ?n) ?rest)
            = filter (\<lambda>n. n \<notin> set (map fst m @ [?n])) ?rest"
        by (auto intro: filter_cong)
      with notin False Cons [of "tally d a b c ?n m"] show ?thesis
        by (simp add: keys_tally Let_def)
    qed
  qed
qed

lemma keys_tallyTasks:
  "map fst (tallyTasks cfg now ts m)
   = map fst m @ filter (\<lambda>n. n \<notin> set (map fst m)) (firstSeen (countedNames ts))"
proof (induction ts arbitrary: m)
  case Nil
  show ?case by (simp add: countedNames_def)
next
  case (Cons t ts)
  let ?ns = "filter (\<lambda>n. n \<noteq> [] \<and> n \<noteq> ''Unknown'') (map assigneeName (assignees t))"
  let ?m' = "tallyAssignees (statsDepartment t) (statsIsHardOverdue cfg now t)
                (statsIsStuck cfg now t) (statsIsDueToday cfg now t) (assignees t) m"
  have split: "countedNames (t # ts) = ?ns @ countedNames ts"
    by (simp add: countedNames_def)
  show ?case
  proof (cases "assignees t = []")
    case True
    with Cons split show ?thesis by simp
  next
    case False
    have k': "map fst ?m' = map fst m @ filter (\<lambda>n. n \<notin> set (map fst m)) (firstSeen ?ns)"
      by (rule keys_tallyAssignees)
    have "map fst (tallyTasks cfg now (t # ts) m) = map fst (tallyTasks cfg now ts ?m')"
      using False by simp
    also have "\<dots> = map fst ?m' @ filter (\<lambda>n. n \<notin> set (map fst ?m')) (firstSeen (countedNames ts))"
      by (rule Cons)
    also have "\<dots> = map fst m @ filter (\<lambda>n. n \<notin> set (map fst m)) (firstSeen (?ns @ countedNames ts))"
      unfolding k' firstSeen_append
      by (auto simp: set_firstSeen intro: filter_cong)
    finally show ?thesis by (simp only: split)
  qed
qed

lemma names_statsByAssignee:
  "map fst (statsByAssignee cfg now ts) = firstSeen (countedNames ts)"
  by (simp add: statsByAssignee_def keys_tallyTasks)

lemma showNat_nonempty: "showNat n \<noteq> []"
  by (subst showNat.simps) simp

lemma char_of_digit_not_newline: "d < 10 \<Longrightarrow> char_of (48 + d :: nat) \<noteq> CHR 0x0A"
proof
  assume d: "d < 10" and "char_of (48 + d) = CHR 0x0A"
  then have "(of_char (char_of (48 + d)) :: nat) = of_char (CHR 0x0A)" by simp
  with d show False by simp
qed

lemma hd_showNat: "hd (showNat n) \<noteq> CHR 0x0A"
proof (induction n rule: showNat.induct)
  case (1 n)
  show ?case
  proof (cases "n < 10")
    case True
    then show ?thesis by (subst showNat.simps) (simp add: char_of_digit_not_newline)
  next
    case False
    with 1 show ?thesis by (subst showNat.simps) (simp add: showNat_nonempty)
  qed
qed

lemma hd_medal: "hd (medal i) \<noteq> CHR 0x0A"
  by (simp add: medal_def hd_showNat showNat_nonempty)

lemma moreNote_not_row: "moreNote n \<noteq> renderRow i s"
proof
  assume "moreNote n = renderRow i s"
  then have "hd (moreNote n) = hd (renderRow i s)" by simp
  moreover have "medal i \<noteq> []" by (simp add: medal_def showNat_nonempty)
  ultimately show False using hd_medal [of i]
    by (simp add: moreNote_def renderRow_def)
qed

lemma moreNote_not_header: "moreNote n \<noteq> statsHeader k"
  by (simp add: moreNote_def statsHeader_def)

lemma note_in_lines: "moreNote (length rows - 5) \<in> set (statsLines rows) \<longleftrightarrow> 5 < length rows"
  by (auto simp: statsLines_def moreNote_not_row moreNote_not_header)

text \<open>
  Claim C4. With \<open>S\<close> the ranking (\<open>sorted\<close> in the source) and \<open>R\<close> the
  entries of the map in insertion order: the totals along \<open>S\<close> never increase; \<open>S\<close>
  holds exactly the entries of \<open>R\<close> with a positive total, each total being the sum of
  the three counts; entries of equal total stand in \<open>S\<close> in their order in \<open>R\<close>,
  which is the order in which the names were first met; an empty \<open>S\<close> renders as the
  fixed sentinel, a non-empty one as its lines joined by newlines; the lines are a header,
  then one row for each of the first \<open>min (length S) 5\<close> entries, row \<open>i\<close> starting
  with the medal of rank \<open>i + 1\<close> for the first three; and the closing note is among
  the lines exactly when \<open>S\<close> has more than 5 entries.
\<close>

theorem leaderboard_ranking:
  "sorted_wrt (\<lambda>a b. total b \<le> total a) (sortedStats cfg now ts)
   \<and> set (sortedStats cfg now ts)
       = {s \<in> set (map toRow (statsByAssignee cfg now ts)). 0 < total s}
   \<and> (\<forall>s \<in> set (sortedStats cfg now ts).
         0 < total s \<and> total s = row_hardOverdue s + row_stuck s + row_dueToday s)
   \<and> (\<forall>k. filter (\<lambda>s. total s = k) (sortedStats cfg now ts)
           = filter (\<lambda>s. total s = k)
               (filter (\<lambda>s. 0 < total s) (map toRow (statsByAssignee cfg now ts))))
   \<and> map row_name (map toRow (statsByAssignee cfg now ts)) = firstSeen (countedNames ts)
   \<and> (sortedStats cfg now ts = [] \<longrightarrow> generateOverdueStats cfg now ts = noProblemsMsg)
   \<and> (sortedStats cfg now ts \<noteq> []
        \<longrightarrow> generateOverdueStats cfg now ts
            = joinWith [CHR 0x0A] (statsLines (sortedStats cfg now ts)))
   \<and> length (statsLines (sortedStats cfg now ts))
       = 1 + min (length (sortedStats cfg now ts)) 5
           + (if 5 < length (sortedStats cfg now ts) then 1 else 0)
   \<and> (\<forall>i < min (length (sortedStats cfg now ts)) 5.
         statsLines (sortedStats cfg now ts) ! Suc i
           = medal i @ '' <b>'' @ row_name (sortedStats cfg now ts ! i) @ (''</b> '' @ [CHR 0xE2, CHR 0x80, CHR 0x94] @ '' '')
               @ showNat (total (sortedStats cfg now ts ! i))
               @ '' ('' @ joinWith '' + '' (rowParts (sortedStats cfg now ts ! i)) @ '')'')
   \<and> medal 0 = [CHR 0xF0, CHR 0x9F, CHR 0xA5, CHR 0x87] \<and> medal 1 = [CHR 0xF0, CHR 0x9F, CHR 0xA5, CHR 0x88] \<and> medal 2 = [CHR 0xF0, CHR 0x9F, CHR 0xA5, CHR 0x89]
   \<and> (moreNote (length (sortedStats cfg now ts) - 5) \<in> set (statsLines (sortedStats cfg now ts))
        \<longleftrightarrow> 5 < length (sortedStats cfg now ts))"
proof -
  let ?R = "map toRow (statsByAssignee cfg now ts)"
  let ?S = "sortedStats cfg now ts"
  have S: "?S = sort_key (\<lambda>s. - int (total s)) (filter (\<lambda>s. 0 < total s) ?R)"
    by (simp add: sortedStats_def)
  have "sorted (map (\<lambda>s. - int (total s)) ?S)"
    unfolding S by (rule sorted_sort_key)
  then have order: "sorted_wrt (\<lambda>a b. total b \<le> total a) ?S"
    by (simp add: sorted_map)
  have members: "set ?S = {s \<in> set ?R. 0 < total s}"
    unfolding S by auto
  have sums: "\<forall>s \<in> set ?S. 0 < total s \<and> total s = row_hardOverdue s + row_stuck s + row_dueToday s"
    unfolding members by (auto simp: toRow_def)
  have stable: "\<forall>k. filter (\<lambda>s. total s = k) ?S
                  = filter (\<lambda>s. total s = k) (filter (\<lambda>s. 0 < total s) ?R)"
  proof
    fix k
    have "filter (\<lambda>s. - int (total s) = - int k) ?S
          = filter (\<lambda>s. - int (total s) = - int k) (filter (\<lambda>s. 0 < total s) ?R)"
      unfolding S by (rule sort_key_stable)
    then show "filter (\<lambda>s. total s = k) ?S
                = filter (\<lambda>s. total s = k) (filter (\<lambda>s. 0 < total s) ?R)"
      by simp
  qed
  have names: "map row_name ?R = firstSeen (countedNames ts)"
    using names_statsByAssignee [of cfg now ts] by (simp add: toRow_def comp_def)
  have rows: "\<forall>i < min (length ?S) 5.
         statsLines ?S ! Suc i
           = medal i @ '' <b>'' @ row_name (?S ! i) @ (''</b> '' @ [CHR 0xE2, CHR 0x80, CHR 0x94] @ '' '')
               @ showNat (total (?S ! i)) @ '' ('' @ joinWith '' + '' (rowParts (?S ! i)) @ '')''"
    by (simp add: statsLines_def renderRow_def nth_append)
  have len: "length (statsLines ?S) = 1 + min (length ?S) 5 + (if 5 < length ?S then 1 else 0)"
    by (simp add: statsLines_def)
  have medals: "medal 0 = [CHR 0xF0, CHR 0x9F, CHR 0xA5, CHR 0x87]" "medal 1 = [CHR 0xF0, CHR 0x9F, CHR 0xA5, CHR 0x88]" "medal 2 = [CHR 0xF0, CHR 0x9F, CHR 0xA5, CHR 0x89]"
    by (simp_all add: medal_def)
  have empty: "?S = [] \<longrightarrow> generateOverdueStats cfg now ts = noProblemsMsg"
    by (simp add: generateOverdueStats_def)
  have nonempty: "?S \<noteq> [] \<longrightarrow> generateOverdueStats cfg now ts = joinWith [CHR 0x0A] (statsLines ?S)"
    by (simp add: generateOverdueStats_def Let_def)
  from order members sums stable names empty nonempty len rows medals note_in_lines [of ?S]
  show ?thesis by (intro conjI)
qed

lemmas stats_eval =
  statsByAssignee_def tally_def hasKey_def setAdd_def emptyCounts_def toRow_def assigneeName_def
  statsDepartment_def statsIsHardOverdue_def statsIsStuck_def statsIsDueToday_def statsDue_def
  statsCreated_def statsDaysOld_def statsStatusName_def
  truthy_def orDefault_def demo_time someIncluded_def activeStatuses_def
  lowerAscii_def char_eval

lemma demo_statsByAssignee:
  "statsByAssignee demoConfig 259200000 demoTasks =
     [(''bob'', \<lparr>hardOverdue = 0, stuck = 0, dueToday = 1, departments = [''Ops'']\<rparr>),
      (''ann'', \<lparr>hardOverdue = 1, stuck = 0, dueToday = 1, departments = [''Ops'']\<rparr>)]"
  by (simp add: demoTasks_def demoBobToday_def demoAnnToday_def demoTask_def stats_eval)

lemma demo_sortedStats:
  "sortedStats demoConfig 259200000 demoTasks =
     [\<lparr>row_name = ''ann'', total = 2, row_hardOverdue = 1, row_stuck = 0, row_dueToday = 1,
       row_departments = [''Ops'']\<rparr>,
      \<lparr>row_name = ''bob'', total = 1, row_hardOverdue = 0, row_stuck = 0, row_dueToday = 1,
       row_departments = [''Ops'']\<rparr>]"
  by (simp add: sortedStats_def demo_statsByAssignee toRow_def)

lemma demo_no_tasks: "sortedStats demoConfig 259200000 [] = []"
  by (simp add: sortedStats_def statsByAssignee_def)

theorem leaderboard_ranking_witness:
  "firstSeen (countedNames demoTasks) = [''bob'', ''ann'']
   \<and> map row_name (sortedStats demoConfig 259200000 demoTasks) = [''ann'', ''bob'']
   \<and> map total (sortedStats demoConfig 259200000 demoTasks) = [2, 1]
   \<and> generateOverdueStats demoConfig 259200000 demoTasks
       = ([CHR 0xF0, CHR 0x9F, CHR 0x93, CHR 0x8A] @ '' <b>'' @ [CHR 0xD0, CHR 0xA2, CHR 0xD0, CHR 0xBE, CHR 0xD0, CHR 0xBF] @ ''-2 '' @ [CHR 0xD0, CHR 0xB7, CHR 0xD0, CHR 0xB0] @ '' '' @ [CHR 0xD0, CHR 0xBF, CHR 0xD1, CHR 0x80, CHR 0xD0, CHR 0xBE, CHR 0xD0, CHR 0xB1, CHR 0xD0, CHR 0xBB, CHR 0xD0, CHR 0xB5, CHR 0xD0, CHR 0xBC, CHR 0xD0, CHR 0xBD, CHR 0xD0, CHR 0xB8, CHR 0xD0, CHR 0xBC, CHR 0xD0, CHR 0xB8] @ '' '' @ [CHR 0xD0, CHR 0xB7, CHR 0xD0, CHR 0xB0, CHR 0xD0, CHR 0xB4, CHR 0xD0, CHR 0xB0, CHR 0xD1, CHR 0x87, CHR 0xD0, CHR 0xB0, CHR 0xD0, CHR 0xBC, CHR 0xD0, CHR 0xB8] @ '':</b>'' @ [CHR 0x0A, CHR 0x0A, CHR 0xF0, CHR 0x9F, CHR 0xA5, CHR 0x87] @ '' <b>ann</b> '' @ [CHR 0xE2, CHR 0x80, CHR 0x94] @ '' 2 ('' @ [CHR 0xF0, CHR 0x9F, CHR 0x94, CHR 0xB4] @ ''1 + '' @ [CHR 0xF0, CHR 0x9F, CHR 0x9F, CHR 0xA1] @ ''1)'' @ [CHR 0x0A, CHR 0xF0, CHR 0x9F, CHR 0xA5, CHR 0x88] @ '' <b>bob</b> '' @ [CHR 0xE2, CHR 0x80, CHR 0x94] @ '' 1 ('' @ [CHR 0xF0, CHR 0x9F, CHR 0x9F, CHR 0xA1] @ ''1)'')
   \<and> generateOverdueStats demoConfig 259200000 [] = noProblemsMsg"
  using leaderboard_ranking [of demoConfig 259200000 demoTasks]
        leaderboard_ranking [of demoConfig 259200000 "[]"]
  by (simp add: demo_sortedStats demo_statsByAssignee demo_no_tasks toRow_def statsLines_def
      statsHeader_def renderRow_def rowParts_def medal_def showNat.simps char_eval)

section \<open>Statistics engine against the retrieval filters\<close>

text \<open>
  The overdue and due-today classifications of the statistics loop are the predicates of
  the retrieval filters, on every task. The stuck classification is the stuck predicate
  on every task whose status is not a plain string.
\<close>

lemma stats_overdue_agrees: "statsIsHardOverdue cfg now t = overdueTask cfg now t"
  by (simp add: statsIsHardOverdue_def overdueTask_def statsDue_def)

lemma stats_due_today_agrees: "statsIsDueToday cfg now t = dueTodayTask cfg now t"
  by (simp add: statsIsDueToday_def dueTodayTask_def statsDue_def)

lemma diffDays_invalid: "diffDays cfg (Some n) None = None"
  by (simp add: diffDays_def)

lemma stats_stuck_agrees_unless_plain:
  "(\<And>s. task_status t \<noteq> Plain s) \<Longrightarrow> statsIsStuck cfg now t = stuckTask cfg now t"
  by (cases "task_status t")
    (auto simp: statsIsStuck_def stuckTask_def statsDue_def statsStatusName_def
       getStatusString_def statsDaysOld_def statsCreated_def diffDays_invalid Let_def
       split: option.splits)

text \<open>
  Claim C5 fails on the code. An undated task in the plain-string status \<open>open\<close>,
  created two days before \<open>now\<close>, is kept by the stuck filter, which reads the status
  through \<open>getStatusString\<close>; the statistics loop reads the status of the same task as
  the empty string, does not count it as stuck, and reports that nobody has a problem.
\<close>

theorem plain_status_stuck_only_in_filter:
  "filterStuck demoConfig 172800000 [demoPlain] = [demoPlain]
   \<and> \<not> statsIsStuck demoConfig 172800000 demoPlain
   \<and> getStatusString (task_status demoPlain) = ''open''
   \<and> statsStatusName demoPlain = []
   \<and> generateOverdueStats demoConfig 172800000 [demoPlain] = noProblemsMsg"
  by (simp add: filterStuck_def generateOverdueStats_def sortedStats_def stuckTask_def
      getStatusString_def demoPlain_def demoTask_def stats_eval)

section \<open>Escaping in the rendered leaderboard\<close>

text \<open>
  Claim C9 fails on the code for the leaderboard. \<open>renderRow\<close> embeds the assignee's name
  as it is: for an assignee named \<^verbatim>\<open>Eve <i>&\<close> the rendered text carries the
  name unescaped between the bold tags, and not its escaped form.
\<close>

theorem leaderboard_name_unescaped:
  "generateOverdueStats demoConfig 259200000 [demoMarkup]
     = ([CHR 0xF0, CHR 0x9F, CHR 0x93, CHR 0x8A] @ '' <b>'' @ [CHR 0xD0, CHR 0xA2, CHR 0xD0, CHR 0xBE, CHR 0xD0, CHR 0xBF] @ ''-1 '' @ [CHR 0xD0, CHR 0xB7, CHR 0xD0, CHR 0xB0] @ '' '' @ [CHR 0xD0, CHR 0xBF, CHR 0xD1, CHR 0x80, CHR 0xD0, CHR 0xBE, CHR 0xD0, CHR 0xB1, CHR 0xD0, CHR 0xBB, CHR 0xD0, CHR 0xB5, CHR 0xD0, CHR 0xBC, CHR 0xD0, CHR 0xBD, CHR 0xD0, CHR 0xB8, CHR 0xD0, CHR 0xBC, CHR 0xD0, CHR 0xB8] @ '' '' @ [CHR 0xD0, CHR 0xB7, CHR 0xD0, CHR 0xB0, CHR 0xD0, CHR 0xB4, CHR 0xD0, CHR 0xB0, CHR 0xD1, CHR 0x87, CHR 0xD0, CHR 0xB0, CHR 0xD0, CHR 0xBC, CHR 0xD0, CHR 0xB8] @ '':</b>'' @ [CHR 0x0A, CHR 0x0A, CHR 0xF0, CHR 0x9F, CHR 0xA5, CHR 0x87] @ '' <b>Eve <i>&</b> '' @ [CHR 0xE2, CHR 0x80, CHR 0x94] @ '' 1 ('' @ [CHR 0xF0, CHR 0x9F, CHR 0x94, CHR 0xB4] @ ''1)'')
   \<and> escapeHtml ''Eve <i>&'' = ''Eve &lt;i&gt;&amp;''
   \<and> \<not> str_includes (generateOverdueStats demoConfig 259200000 [demoMarkup]) (escapeHtml ''Eve <i>&'')"
  by (simp add: generateOverdueStats_def sortedStats_def statsLines_def statsHeader_def
      renderRow_def rowParts_def medal_def showNat.simps demoMarkup_def demoTask_def
      stats_eval escapeHtml_def replaceAll_def)

section \<open>The orchestrator loop\<close>

lemma agentLoop_calls_prefix:
  "\<exists>rest. completions (agentLoop w env uid msg st msgs it calls) = calls @ rest
         \<and> length rest \<le> 6 - it"
proof (induction w env uid msg st msgs it calls rule: agentLoop.induct)
  case (1 w env userId msg st messages iterations calls)
  let ?choice = "if Suc iterations = 1 \<and> isTaskQuery msg then Required else Auto"
  show ?case
  proof (cases "iterations < 6")
    case False
    then show ?thesis by (simp add: agentLoop.simps)
  next
    case lt: True
    show ?thesis
    proof (cases "openai w messages ?choice")
      case (Throws e)
      with lt show ?thesis
        by (subst agentLoop.simps) (auto simp: Let_def)
    next
      case (Choice mo)
      show ?thesis
      proof (cases mo)
        case None
        with lt Choice show ?thesis
          by (subst agentLoop.simps) (auto simp: Let_def)
      next
        case (Some message)
        show ?thesis
        proof (cases "tool_calls message = []")
          case True
          with lt Choice Some show ?thesis
            by (subst agentLoop.simps) (auto simp: Let_def reply_def)
        next
          case calls: False
          show ?thesis
          proof (cases "runToolCalls w env userId msg st (messages @ [AssistantTurn message])
                          (tool_calls message)")
            case (Returned r st')
            with lt Choice Some calls show ?thesis
              by (subst agentLoop.simps) (auto simp: Let_def)
          next
            case (Continue st' messages')
            from "1.IH" [OF lt refl refl Choice Some calls Continue]
            obtain rest where
              rest: "completions (agentLoop w env userId msg st' messages' (Suc iterations)
                        (calls @ [?choice])) = (calls @ [?choice]) @ rest"
                "length rest \<le> 6 - Suc iterations"
              by blast
            have "completions (agentLoop w env userId msg st messages iterations calls)
                  = calls @ (?choice # rest)"
              using lt Choice Some calls Continue rest(1)
              by (subst agentLoop.simps) (auto simp: Let_def)
            moreover have "length (?choice # rest) \<le> 6 - iterations"
              using rest(2) lt by simp
            ultimately show ?thesis by blast
          qed
        qed
      qed
    qed
  qed
qed

lemma agentLoop_first_choice:
  "\<exists>rest. completions (agentLoop w env uid msg st msgs 0 [])
           = (if isTaskQuery msg then Required else Auto) # rest"
proof -
  let ?choice = "if isTaskQuery msg then Required else Auto"
  show ?thesis
  proof (cases "openai w msgs ?choice")
    case (Throws e)
    then show ?thesis by (subst agentLoop.simps) (auto simp: Let_def)
  next
    case (Choice mo)
    show ?thesis
    proof (cases mo)
      case None
      with Choice show ?thesis by (subst agentLoop.simps) (auto simp: Let_def)
    next
      case (Some message)
      show ?thesis
      proof (cases "tool_calls message = []")
        case True
        with Choice Some show ?thesis
          by (subst agentLoop.simps) (auto simp: Let_def reply_def)
      next
        case calls: False
        show ?thesis
        proof (cases "runToolCalls w env uid msg st (msgs @ [AssistantTurn message])
                          (tool_calls message)")
          case (Returned r st')
          with Choice Some calls show ?thesis
            by (subst agentLoop.simps) (auto simp: Let_def)
        next
          case (Continue st' messages')
          obtain rest where "completions (agentLoop w env uid msg st' messages' (Suc 0) [?choice])
                = [?choice] @ rest"
            using agentLoop_calls_prefix [of w env uid msg st' messages' "Suc 0" "[?choice]"]
            by blast
          with Choice Some calls Continue show ?thesis
            by (subst agentLoop.simps) (auto simp: Let_def)
        qed
      qed
    qed
  qed
qed

text \<open>
  Claim C6. Whatever the message, the completion service and the tools answer,
  \<open>handleMessage\<close> issues at most 6 completion calls. The loop check at
  \<open>iterations = 6\<close> returns the fixed overflow text and issues no call; so when the
  sixth iteration gets tool calls and runs them to the end, its call is the last one and
  the overflow text is returned.
\<close>

theorem at_most_six_completions:
  "length (completions (handleMessage w env st uid msg)) \<le> 6
   \<and> agentLoop w env uid msg st' msgs 6 calls
       = \<lparr>result = Inr tooManyStepsMsg, final_store = st', completions = calls\<rparr>
   \<and> (openai w msgs Auto = Choice (Some m) \<and> tool_calls m \<noteq> []
        \<and> runToolCalls w env uid msg st' (msgs @ [AssistantTurn m]) (tool_calls m)
            = Continue st'' msgs'
      \<longrightarrow> agentLoop w env uid msg st' msgs 5 calls
          = \<lparr>result = Inr tooManyStepsMsg, final_store = st'', completions = calls @ [Auto]\<rparr>)"
proof (intro conjI impI)
  obtain rest where "completions (agentLoop w env uid msg st (initialMessages w st uid msg) 0 [])
      = [] @ rest" "length rest \<le> 6 - 0"
    using agentLoop_calls_prefix [of w env uid msg st "initialMessages w st uid msg" 0 "[]"]
    by blast
  then show "length (completions (handleMessage w env st uid msg)) \<le> 6"
    by (simp add: handleMessage_def reply_def split: option.splits)
next
  show "agentLoop w env uid msg st' msgs 6 calls
       = \<lparr>result = Inr tooManyStepsMsg, final_store = st', completions = calls\<rparr>"
    by (simp add: agentLoop.simps)
next
  assume "openai w msgs Auto = Choice (Some m) \<and> tool_calls m \<noteq> []
        \<and> runToolCalls w env uid msg st' (msgs @ [AssistantTurn m]) (tool_calls m)
            = Continue st'' msgs'"
  then show "agentLoop w env uid msg st' msgs 5 calls
          = \<lparr>result = Inr tooManyStepsMsg, final_store = st'', completions = calls @ [Auto]\<rparr>"
    by (simp add: agentLoop.simps [of _ _ _ _ _ _ 5] agentLoop.simps [of _ _ _ _ _ _ 6])
qed

lemmas agent_eval =
  handleMessage_def buildTeamInfoResponse_def initialMessages_def getState_def
  getRecentMessages_def buildHistoryMessages_def isTaskQuery_def taskKeywords_def
  teamTaskKeywords_def someIncluded_def lowerAscii_def char_eval completionFailure_def
  reply_def saveMessage_def updateState_def personContext_def

lemmas demo_worlds =
  silentWorld_def throttledWorld_def loopingWorld_def chattyWorld_def rosterWorld_def
  contextTurn_def contextCall_def demoSettings_def demoStore_def demoMembers_def

theorem at_most_six_completions_witness:
  "completions (handleMessage loopingWorld demoSettings demoStore 1 ''Any overdue?'')
     = [Required, Auto, Auto, Auto, Auto, Auto]
   \<and> length (completions (handleMessage loopingWorld demoSettings demoStore 1 ''Any overdue?'')) \<le> 6
   \<and> result (handleMessage loopingWorld demoSettings demoStore 1 ''Any overdue?'')
       = Inr tooManyStepsMsg
   \<and> agentLoop loopingWorld demoSettings 1 ''Any overdue?'' demoStore [] 5 []
       = \<lparr>result = Inr tooManyStepsMsg,
          final_store = updateState demoStore 1 (personContext (Some ''7'') (Some ''Ann'')),
          completions = [Auto]\<rparr>"
  using at_most_six_completions
          [of loopingWorld demoSettings demoStore 1 "''Any overdue?''" demoStore "[]" "[]"
              contextTurn "updateState demoStore 1 (personContext (Some ''7'') (Some ''Ann''))"
              "[AssistantTurn contextTurn,
                ToolMessage ''call_1'' (ContextUpdated (Some ''7'') (Some ''Ann''))]"]
  by (simp add: agent_eval demo_worlds agentLoop.simps)

text \<open>
  Claim C7. Let the text hold a task keyword. If no team-directory answer short-cuts the
  model, the first completion call is issued with tool use required; and if that call
  answers with a message without tool calls, \<open>handleMessage\<close> saves and returns the
  fixed "cannot answer without data" text, not the message's content. If a team-directory
  answer applies, it is returned and the model is not called at all.
\<close>

theorem task_query_forces_tools:
  "isTaskQuery msg \<Longrightarrow>
   (buildTeamInfoResponse w (env_members env) msg = None
      \<longrightarrow> (\<exists>rest. completions (handleMessage w env st uid msg) = Required # rest)
        \<and> (\<forall>m. openai w (initialMessages w st uid msg) Required = Choice (Some m)
                 \<and> tool_calls m = []
              \<longrightarrow> handleMessage w env st uid msg = reply st uid msg [Required] cannotAnswerMsg))
   \<and> (\<forall>a. buildTeamInfoResponse w (env_members env) msg = Some a \<and> a \<noteq> []
          \<longrightarrow> handleMessage w env st uid msg = reply st uid msg [] a)"
proof (intro conjI impI allI)
  assume tq: "isTaskQuery msg" and none: "buildTeamInfoResponse w (env_members env) msg = None"
  from agentLoop_first_choice [of w env uid msg st "initialMessages w st uid msg"] tq none
  show "\<exists>rest. completions (handleMessage w env st uid msg) = Required # rest"
    by (simp add: handleMessage_def)
next
  fix m
  assume tq: "isTaskQuery msg" and none: "buildTeamInfoResponse w (env_members env) msg = None"
    and m: "openai w (initialMessages w st uid msg) Required = Choice (Some m) \<and> tool_calls m = []"
  then show "handleMessage w env st uid msg = reply st uid msg [Required] cannotAnswerMsg"
    by (simp add: handleMessage_def agentLoop.simps [of _ _ _ _ _ _ 0])
next
  fix a
  assume "buildTeamInfoResponse w (env_members env) msg = Some a \<and> a \<noteq> []"
  then show "handleMessage w env st uid msg = reply st uid msg [] a"
    by (simp add: handleMessage_def)
qed

theorem task_query_forces_tools_witness:
  "isTaskQuery ''Any overdue?''
   \<and> completions (handleMessage chattyWorld demoSettings demoStore 1 ''Any overdue?'')
       = [Required]
   \<and> result (handleMessage chattyWorld demoSettings demoStore 1 ''Any overdue?'')
       = Inr cannotAnswerMsg
   \<and> isTaskQuery ''Team size? Overdue?''
   \<and> completions (handleMessage rosterWorld demoSettings demoStore 1 ''Team size? Overdue?'')
       = []"
proof -
  have q1: "isTaskQuery ''Any overdue?''" and q2: "isTaskQuery ''Team size? Overdue?''"
    by (simp_all add: agent_eval)
  from task_query_forces_tools [OF q1, of chattyWorld demoSettings demoStore 1]
       task_query_forces_tools [OF q2, of rosterWorld demoSettings demoStore 1]
       q1 q2
  show ?thesis
    by (simp add: agent_eval demo_worlds)
qed

section \<open>Saving the turn\<close>

text \<open>
  The paths of \<open>handleMessage\<close> that go through \<open>reply\<close> (the team-directory answer,
  the model's answer and the forced-tool error) append the user's text and then the
  returned text to the store; so does the direct answer of \<open>load_and_filter_tasks\<close>.
\<close>

lemma reply_saves_both:
  "store_messages (final_store (reply st uid msg calls answer))
   = store_messages st
       @ [(uid, \<lparr>msg_role = User, msg_content = msg\<rparr>),
          (uid, \<lparr>msg_role = Assistant, msg_content = answer\<rparr>)]"
  by (simp add: reply_def saveMessage_def)

text \<open>
  On an error of the first completion call, and when the loop check finds
  \<open>iterations = 6\<close>, the store is returned as it was.
\<close>

lemma completion_error_saves_nothing:
  "buildTeamInfoResponse w (env_members env) msg = None
   \<Longrightarrow> openai w (initialMessages w st uid msg) (if isTaskQuery msg then Required else Auto)
         = Throws e
   \<Longrightarrow> final_store (handleMessage w env st uid msg) = st
       \<and> result (handleMessage w env st uid msg) = completionFailure e"
  by (simp add: handleMessage_def agentLoop.simps [of _ _ _ _ _ _ 0])

text \<open>
  Claim C8 fails on the code. When the completion service answers the first call with
  status 429, \<open>handleMessage\<close> returns the rate-limit text and the store holds no
  message. When the model asks for \<open>update_context\<close> on each of the six turns,
  \<open>handleMessage\<close> returns the overflow text and the store holds no message either.
\<close>

theorem error_and_overflow_not_saved:
  "result (handleMessage throttledWorld demoSettings demoStore 1 ''hello'') = Inr rateLimitMsg
   \<and> store_messages (final_store (handleMessage throttledWorld demoSettings demoStore 1 ''hello''))
       = []
   \<and> result (handleMessage loopingWorld demoSettings demoStore 1 ''hello'') = Inr tooManyStepsMsg
   \<and> store_messages (final_store (handleMessage loopingWorld demoSettings demoStore 1 ''hello''))
       = []"
  by (simp add: agent_eval demo_worlds agentLoop.simps)


end
